theory Spec2Isabelle
  imports Main "HOL-Library.Word"
begin

unbundle bit_operations_syntax

section \<open>Status codes, exceptions and the Expect helpers\<close>

type_synonym u8 = "8 word"
type_synonym u16 = "16 word"
type_synonym u32 = "32 word"
type_synonym u64 = "64 word"

text \<open>
  The status codes the modelled sources raise (\<open>gna2-common-api.h\<close>). Only the codes that
  occur in the sources are listed.
\<close>

datatype Gna2Status =
    Gna2StatusSuccess
  | Gna2StatusNotImplemented
  | Gna2StatusIdentifierInvalid
  | Gna2StatusModelConfigurationInvalid
  | Gna2StatusActiveListIndicesInvalid
  | Gna2StatusXnnErrorLyrOperation
  | Gna2StatusCnnErrorPoolType
  | Gna2StatusCnnErrorPoolSize
  | Gna2StatusCnnErrorPoolStride

text \<open>
  What a call can throw. \<open>GnaException\<close> carries a status code;
  \<open>GnaModelErrorException\<close> is a model error with the context that
  \<open>ModelErrorHelper::ExecuteForModelItem\<close> attached (operand index, parameter index);
  \<open>std_out_of_range\<close> is what \<open>std::map::at\<close> throws on a missing key;
  \<open>OperandNotPresent\<close> and \<open>MemoryNotMapped\<close> are the "not present" and
  "memory not mapped" errors of the specification, whose status codes are not in the
  sources; \<open>DivideByZero\<close> is the trap of an unsigned division by zero.
\<close>

datatype exn =
    GnaException Gna2Status
  | GnaModelErrorException Gna2Status int int
  | std_out_of_range
  | OperandNotPresent
  | MemoryNotMapped
  | DivideByZero

text \<open>Sequencing of calls that may throw: the first exception wins.\<close>

definition bind :: "exn + 'a \<Rightarrow> ('a \<Rightarrow> exn + 'b) \<Rightarrow> exn + 'b" where
  "bind m f = (case m of Inl e \<Rightarrow> Inl e | Inr v \<Rightarrow> f v)"

definition Expect_InRange :: "u32 \<Rightarrow> u32 \<Rightarrow> u32 \<Rightarrow> Gna2Status \<Rightarrow> exn + unit" where
  \<comment> \<open>Modelled from the spec: \<open>Expect::InRange(val, min, max, status)\<close> of Expect.h, which
     is not among the sources. The specification reads the call
     \<open>Expect::InRange(out, ui32_1, in, ...)\<close> of the pooling constructor as "lies within
     [1, input]": both bounds are inclusive, and a value outside throws the status.\<close>
  "Expect_InRange val lo hi status =
     (if val < lo \<or> hi < val then Inl (GnaException status) else Inr ())"

definition Expect_InSet :: "'a \<Rightarrow> 'a list \<Rightarrow> Gna2Status \<Rightarrow> exn + unit" where
  \<comment> \<open>Modelled from the spec: \<open>Expect::InSet(val, {..}, status)\<close> of Expect.h, which is not
     among the sources: a value outside the set throws the status.\<close>
  "Expect_InSet val allowed status =
     (if val \<in> set allowed then Inr () else Inl (GnaException status))"

definition Expect_Equal :: "'a \<Rightarrow> 'a \<Rightarrow> Gna2Status \<Rightarrow> exn + unit" where
  \<comment> \<open>Modelled from the spec: \<open>Expect::Equal(a, b, status)\<close> of Expect.h, which is not among
     the sources: unequal values throw the status.\<close>
  "Expect_Equal a b status = (if a = b then Inr () else Inl (GnaException status))"

definition ExecuteForModelItem :: "exn + 'a \<Rightarrow> int \<Rightarrow> int \<Rightarrow> exn + 'a" where
  \<comment> \<open>Modelled from the spec: \<open>ModelErrorHelper::ExecuteForModelItem(command, operandIndex,
     parameterIndex)\<close>, which is not among the sources. It runs the command and, when the
     command throws a status, attaches which operand or parameter failed and keeps the
     status code.\<close>
  "ExecuteForModelItem command operandIndex parameterIndex =
     (case command of
        Inl (GnaException s) \<Rightarrow> Inl (GnaModelErrorException s operandIndex parameterIndex)
      | Inl e \<Rightarrow> Inl e
      | Inr v \<Rightarrow> Inr v)"

definition GNA2_DISABLED :: int where
  "GNA2_DISABLED = -1"

section \<open>Shapes, data modes and tensors\<close>

datatype gna_tensor_dim =
    GNA_DIM_S
  | GNA_DIM_N
  | GNA_DIM_W
  | GNA_DIM_H
  | GNA_DIM_D
  | GNA_DIM_X
  | GNA_DIM_Y
  | GNA_DIM_Z

text \<open>
  A \<open>Shape\<close> is a \<open>std::map\<close> from dimension to extent: \<open>at\<close> throws on a missing
  dimension, \<open>operator[]\<close> inserts or overwrites (written \<open>s(d \<mapsto> v)\<close>), and a loop over
  the shape visits its dimensions in the order of the enumeration.
\<close>

type_synonym Shape = "gna_tensor_dim \<rightharpoonup> u32"

definition Shape_at :: "Shape \<Rightarrow> gna_tensor_dim \<Rightarrow> exn + u32" where
  "Shape_at s d = (case s d of None \<Rightarrow> Inl std_out_of_range | Some v \<Rightarrow> Inr v)"

definition gna_tensor_dims :: "gna_tensor_dim list" where
  "gna_tensor_dims =
     [GNA_DIM_S, GNA_DIM_N, GNA_DIM_W, GNA_DIM_H, GNA_DIM_D, GNA_DIM_X, GNA_DIM_Y, GNA_DIM_Z]"

definition Shape_items :: "Shape \<Rightarrow> (gna_tensor_dim \<times> u32) list" where
  "Shape_items s = List.map_filter (\<lambda>d. map_option (Pair d) (s d)) gna_tensor_dims"

datatype Gna2DataType =
    Gna2DataTypeNone
  | Gna2DataTypeBoolean
  | Gna2DataTypeInt4
  | Gna2DataTypeInt8
  | Gna2DataTypeInt16
  | Gna2DataTypeInt32
  | Gna2DataTypeInt64
  | Gna2DataTypeUint4
  | Gna2DataTypeUint8
  | Gna2DataTypeUint16
  | Gna2DataTypeUint32
  | Gna2DataTypeUint64
  | Gna2DataTypeCompoundBias
  | Gna2DataTypePwlSegment
  | Gna2DataTypeWeightScaleFactor

datatype Gna2TensorMode = Gna2TensorModeDefault | Gna2TensorModeConstantScalar | Gna2TensorModeDisabled

record DataMode =
  Type :: Gna2DataType
  TensorMode :: Gna2TensorMode
  Size :: u32

record Tensor =
  Dimensions :: Shape
  Mode :: DataMode
  Buffer :: nat

definition Tensor_at :: "Tensor \<Rightarrow> gna_tensor_dim \<Rightarrow> exn + u32" where
  "Tensor_at t d = Shape_at (Dimensions t) d"

record ActiveList =
  IndicesCount :: u32
  Indices :: "u32 list"

section \<open>Affine transforms (AffineFunctions.cpp)\<close>

text \<open>
  Operand indices of an affine operation (\<open>gna2-model-api.h\<close>): inputs, outputs, weights,
  biases, activation function, weight scale factors.
\<close>

definition InputOperandIndex :: u32 where "InputOperandIndex = 0"
definition OutputOperandIndex :: u32 where "OutputOperandIndex = 1"
definition WeightOperandIndex :: u32 where "WeightOperandIndex = 2"
definition BiasOperandIndex :: u32 where "BiasOperandIndex = 3"
definition PwlOperandIndex :: u32 where "PwlOperandIndex = 4"
definition WeightScaleFactorOperandIndex :: u32 where "WeightScaleFactorOperandIndex = 5"

datatype Gna2BiasMode = Gna2BiasModeDefault | Gna2BiasModeGrouping

datatype kernel_op =
    KERNEL_AFFINE
  | KERNEL_AFFINE_AL
  | KERNEL_AFFINE_MULTIBIAS
  | KERNEL_RECURRENT
  | KERNEL_AFFINE_DIAGONAL
  | KERNEL_POOLING

datatype TransformOperation =
    AffineTransform
  | AffineDiagonalTransform
  | AffineMultibiasTransform
  | RecurrentTransform

record BiasTensor = Tensor +
  VectorIndex :: u32
  BiasMode :: Gna2BiasMode

text \<open>
  An operand of the operation descriptor (\<open>Gna2Tensor\<close>): shape, data mode and the
  caller's buffer.
\<close>

record Gna2Tensor =
  ApiShape :: Shape
  ApiMode :: DataMode
  ApiData :: nat

text \<open>
  The capability tables a tensor is validated against. The tables themselves are not among
  the sources; the validator of the factory configuration is a function from the table and
  the candidate tensor to success or a model error.
\<close>

datatype CapabilityEntry =
    WeightCapabilities
  | BiasCapabilities
  | AffineFunctionSingle_outputCapabilities
  | AffineFunctionMulti_outputCapabilities
  | AffineFunctionMulti_Capabilities

type_synonym Validator = "CapabilityEntry \<Rightarrow> Tensor \<Rightarrow> exn + unit"

definition Tensor_ctor :: "Shape \<Rightarrow> DataMode \<Rightarrow> nat \<Rightarrow> Validator \<Rightarrow> CapabilityEntry \<Rightarrow> exn + Tensor" where
  \<comment> \<open>Modelled from the spec: the validating constructor of \<open>Tensor\<close> (Tensor.h is not
     among the sources). A tensor carries shape, data mode and buffer; it is checked against
     its capability entry, and a violation is a model error.\<close>
  "Tensor_ctor shape mode buffer validator caps =
     (let t = \<lparr>Dimensions = shape, Mode = mode, Buffer = buffer\<rparr>
      in bind (validator caps t) (\<lambda>_. Inr t))"

definition Tensor_from_api :: "Gna2Tensor \<Rightarrow> Validator \<Rightarrow> CapabilityEntry \<Rightarrow> exn + Tensor" where
  \<comment> \<open>Modelled from the spec: the constructor of a \<open>Tensor\<close> from an operand of the
     descriptor (Tensor.h is not among the sources): the descriptor's shape, data mode and
     buffer, validated.\<close>
  "Tensor_from_api apiTensor validator caps =
     Tensor_ctor (ApiShape apiTensor) (ApiMode apiTensor) (ApiData apiTensor) validator caps"

definition WeightTensor_ctor :: "Gna2Tensor \<Rightarrow> Validator \<Rightarrow> exn + Tensor" where
  \<comment> \<open>Modelled from the spec: the constructor of \<open>WeightTensor\<close> (Weight.h is not among the
     sources): the weight operand of the descriptor, validated as weights.\<close>
  "WeightTensor_ctor apiTensor validator = Tensor_from_api apiTensor validator WeightCapabilities"

definition BiasTensor_ctor :: "Gna2Tensor \<Rightarrow> u32 \<Rightarrow> Gna2BiasMode \<Rightarrow> Validator \<Rightarrow> exn + BiasTensor" where
  \<comment> \<open>Modelled from the spec: the constructor of \<open>BiasTensor\<close> (Bias.h is not among the
     sources): the bias operand of the descriptor, validated as biases, with the bias vector
     index and the bias mode it was built for.\<close>
  "BiasTensor_ctor apiTensor biasVectorIndex biasMode validator =
     bind (Tensor_from_api apiTensor validator BiasCapabilities) (\<lambda>t.
       Inr (Tensor.extend t (BiasTensor.fields biasVectorIndex biasMode)))"

definition ExpectNotNull :: "Tensor \<Rightarrow> exn + unit" where
  \<comment> \<open>Modelled from the spec: \<open>ModelErrorHelper::ExpectNotNull\<close>, which is not among the
     sources: a tensor without a buffer is a model error.\<close>
  "ExpectNotNull t =
     (if Buffer t = 0 then Inl (GnaException Gna2StatusModelConfigurationInvalid) else Inr ())"

definition GetOperandIfExistOrThrow :: "Tensor option \<Rightarrow> exn + Tensor" where
  \<comment> \<open>Modelled from the spec: \<open>Transform::GetOperandIfExistOrThrow\<close> (Transform.h is not
     among the sources): the tensor behind the pointer, or the "not present" error for an
     empty pointer.\<close>
  "GetOperandIfExistOrThrow operand =
     (case operand of None \<Rightarrow> Inl OperandNotPresent | Some t \<Rightarrow> Inr t)"

text \<open>The kernel configuration block built once at construction (\<open>AffineConfig\<close>).\<close>

record AffineConfig =
  affine_outputElementCount :: u32
  affine_inputVectorCount :: u32
  affine_inputElementCount :: u32
  input_ptr :: nat
  output_ptr :: nat
  weights_ptr :: nat
  weightScaleFactors :: nat
  biasesSimple :: nat
  multiBias :: nat
  multiBiasVectorCount :: u32
  bytesPerBias :: u32

record BaseConfig =
  BaseInputs :: nat
  BaseOutputs :: nat

record KernelConfig =
  TransformConfig :: AffineConfig
  Base :: BaseConfig

record AffineConfigAl =
  indices :: "u32 list"
  count :: u32

record LayerConfiguration =
  ActList :: "ActiveList option"

text \<open>
  A kernel map takes an acceleration mode to a kernel entry point. An entry point is a
  function of the execution configuration; \<open>'r\<close> is what running it yields.
\<close>

type_synonym ('accel, 'cfg, 'r) AffineKernelMap = "'accel \<rightharpoonup> ('cfg \<Rightarrow> 'r)"
type_synonym ('accel, 'cfg, 'r) AffineActiveListKernelMap = "'accel \<rightharpoonup> ('cfg \<Rightarrow> AffineConfigAl \<Rightarrow> 'r)"

definition KernelMap_at :: "('accel \<rightharpoonup> 'k) \<Rightarrow> 'accel \<Rightarrow> exn + 'k" where
  "KernelMap_at m accel = (case m accel of None \<Rightarrow> Inl std_out_of_range | Some k \<Rightarrow> Inr k)"

record KernelMode =
  InputMode :: DataMode
  WeightMode :: DataMode
  BiasDataMode :: DataMode

text \<open>
  \<open>AccelerationDetector::GetKernelMap\<close> is not among the sources: the two instances the
  affine transforms use are parameters of the model.
\<close>

record ('accel, 'cfg, 'r) AccelerationDetector =
  GetKernelMap_AffineKernel ::
    "kernel_op \<Rightarrow> KernelMode \<Rightarrow> exn + ('accel, 'cfg, 'r) AffineKernelMap"
  GetKernelMap_AffineActiveListKernel ::
    "kernel_op \<Rightarrow> KernelMode \<Rightarrow> exn + ('accel, 'cfg, 'r) AffineActiveListKernelMap"

record TransformFactoryConfig =
  config_input :: Tensor
  config_output :: Tensor
  outputBuffer :: nat
  validator :: Validator

record OperationConfig =
  OpBiasMode :: Gna2BiasMode
  WeightsTensor :: Gna2Tensor
  BiasesTensor :: Gna2Tensor
  BiasVectorIndex :: u32
  WeightScalesTensor :: Gna2Tensor
  KernelOperation :: kernel_op
  TransformOp :: TransformOperation

record ('accel, 'cfg, 'r) AffineFunction =
  Operation :: TransformOperation
  Input :: Tensor
  Output :: Tensor
  hiddenConfig :: KernelConfig
  kernels :: "('accel, 'cfg, 'r) AffineKernelMap"
  Weights :: Tensor
  Biases :: BiasTensor

record ('accel, 'cfg, 'r) AffineFunctionSingle = "('accel, 'cfg, 'r) AffineFunction" +
  kernelsAl :: "('accel, 'cfg, 'r) AffineActiveListKernelMap"

record ('accel, 'cfg, 'r) AffineFunctionMulti = "('accel, 'cfg, 'r) AffineFunction" +
  WeightScaleFactors :: "Tensor option"

datatype ('accel, 'cfg, 'r) AffineFunctionPtr =
    Single "('accel, 'cfg, 'r) AffineFunctionSingle"
  | Multi "('accel, 'cfg, 'r) AffineFunctionMulti"

definition kernelMode_of :: "TransformFactoryConfig \<Rightarrow> Tensor \<Rightarrow> BiasTensor \<Rightarrow> KernelMode" where
  "kernelMode_of config weights biases =
     \<lparr>InputMode = Mode (config_input config), WeightMode = Mode weights, BiasDataMode = Mode biases\<rparr>"

definition AffineFunctionSingle_ctor ::
  "('accel, 'cfg, 'r) AccelerationDetector \<Rightarrow> TransformFactoryConfig \<Rightarrow>
   ('accel, 'cfg, 'r) AffineKernelMap \<Rightarrow> TransformOperation \<Rightarrow> Tensor \<Rightarrow> BiasTensor \<Rightarrow>
   exn + ('accel, 'cfg, 'r) AffineFunctionSingle" where
  "AffineFunctionSingle_ctor detector config affineKernel transform weights biases =
     bind (GetKernelMap_AffineActiveListKernel detector KERNEL_AFFINE_AL
             (kernelMode_of config weights biases)) (\<lambda>kernelsAlIn.
     bind (Shape_at (Dimensions (config_output config)) GNA_DIM_H) (\<lambda>outH.
     bind (Shape_at (Dimensions (config_output config)) GNA_DIM_W) (\<lambda>outW.
     bind (Shape_at (Dimensions (config_input config)) GNA_DIM_H) (\<lambda>inH.
     let kernelAffineConfig =
           \<lparr>affine_outputElementCount = outH, affine_inputVectorCount = outW, affine_inputElementCount = inH,
            input_ptr = Buffer (config_input config), output_ptr = Buffer (config_output config),
            weights_ptr = Buffer weights, weightScaleFactors = 0, biasesSimple = Buffer biases,
            multiBias = 0, multiBiasVectorCount = 0, bytesPerBias = Size (Mode biases)\<rparr>
     in
     bind (Tensor_ctor [GNA_DIM_H \<mapsto> outH, GNA_DIM_W \<mapsto> outW] (Mode (config_output config))
             (outputBuffer config) (validator config) AffineFunctionSingle_outputCapabilities)
       (\<lambda>out.
     Inr \<lparr>Operation = transform, Input = config_input config, Output = out,
          hiddenConfig = \<lparr>TransformConfig = kernelAffineConfig,
                          Base = \<lparr>BaseInputs = Buffer (config_input config), BaseOutputs = Buffer out\<rparr>\<rparr>,
          kernels = affineKernel, Weights = weights, Biases = biases,
          kernelsAl = kernelsAlIn\<rparr>)))))"

definition AffineFunctionMulti_ctor ::
  "TransformFactoryConfig \<Rightarrow> ('accel, 'cfg, 'r) AffineKernelMap \<Rightarrow> TransformOperation \<Rightarrow>
   Tensor \<Rightarrow> BiasTensor \<Rightarrow> Tensor option \<Rightarrow> exn + ('accel, 'cfg, 'r) AffineFunctionMulti" where
  "AffineFunctionMulti_ctor config affineKernel transform weights biases weightScaleFactorsIn =
     bind (Shape_at (Dimensions (config_output config)) GNA_DIM_H) (\<lambda>outH.
     bind (Shape_at (Dimensions (config_input config)) GNA_DIM_W) (\<lambda>inW.
     bind (Shape_at (Dimensions (config_input config)) GNA_DIM_H) (\<lambda>inH.
     bind (Shape_at (Dimensions biases) GNA_DIM_W) (\<lambda>biasW.
     let kernelAffineConfig =
           \<lparr>affine_outputElementCount = outH, affine_inputVectorCount = inW, affine_inputElementCount = inH,
            input_ptr = Buffer (config_input config), output_ptr = Buffer (config_output config),
            weights_ptr = Buffer weights,
            weightScaleFactors = (case weightScaleFactorsIn of Some ws \<Rightarrow> Buffer ws | None \<Rightarrow> 0),
            biasesSimple = 0, multiBias = Buffer biases, multiBiasVectorCount = biasW,
            bytesPerBias = Size (Mode biases)\<rparr>
     in
     bind (Shape_at (Dimensions (config_output config)) GNA_DIM_W) (\<lambda>outW.
     bind (Tensor_ctor [GNA_DIM_H \<mapsto> outH, GNA_DIM_W \<mapsto> outW] (Mode (config_output config))
             (outputBuffer config) (validator config) AffineFunctionMulti_outputCapabilities)
       (\<lambda>out.
     Inr \<lparr>Operation = transform, Input = config_input config, Output = out,
          hiddenConfig = \<lparr>TransformConfig = kernelAffineConfig,
                          Base = \<lparr>BaseInputs = Buffer (config_input config), BaseOutputs = Buffer out\<rparr>\<rparr>,
          kernels = affineKernel, Weights = weights, Biases = biases,
          WeightScaleFactors = weightScaleFactorsIn\<rparr>))))))"

definition createAffineSingleFunction ::
  "('accel, 'cfg, 'r) AccelerationDetector \<Rightarrow> TransformFactoryConfig \<Rightarrow> OperationConfig \<Rightarrow>
   exn + ('accel, 'cfg, 'r) AffineFunctionPtr" where
  "createAffineSingleFunction detector config operationConfig =
     (let kernelOperation = KernelOperation operationConfig;
          weightTensor = WeightsTensor operationConfig;
          biasTensor = BiasesTensor operationConfig
      in
      bind (WeightTensor_ctor weightTensor (validator config)) (\<lambda>weights.
      bind (BiasTensor_ctor biasTensor 0 Gna2BiasModeDefault (validator config)) (\<lambda>biases.
      bind (GetKernelMap_AffineKernel detector kernelOperation
              (kernelMode_of config weights biases)) (\<lambda>affineKernel.
      bind (AffineFunctionSingle_ctor detector config affineKernel
              (TransformOp operationConfig) weights biases) (\<lambda>f. Inr (Single f))))))"

definition createAffineMultiFunction ::
  "('accel, 'cfg, 'r) AccelerationDetector \<Rightarrow> TransformFactoryConfig \<Rightarrow> OperationConfig \<Rightarrow>
   exn + ('accel, 'cfg, 'r) AffineFunctionPtr" where
  "createAffineMultiFunction detector config operationConfig =
     (let weightTensor = WeightsTensor operationConfig;
          biasTensor = BiasesTensor operationConfig;
          biasVectorIndex = BiasVectorIndex operationConfig
      in
      bind (WeightTensor_ctor weightTensor (validator config)) (\<lambda>weights.
      bind (BiasTensor_ctor biasTensor biasVectorIndex Gna2BiasModeGrouping (validator config))
        (\<lambda>biases.
      bind (if TensorMode (ApiMode (WeightScalesTensor operationConfig)) \<noteq> Gna2TensorModeDisabled
            then ExecuteForModelItem
                   (bind (Tensor_from_api (WeightScalesTensor operationConfig) (validator config)
                            AffineFunctionMulti_Capabilities) (\<lambda>ws.
                    bind (ExpectNotNull ws) (\<lambda>_. Inr (Some ws))))
                   (uint WeightScaleFactorOperandIndex) GNA2_DISABLED
            else Inr None) (\<lambda>weightScales.
      bind (GetKernelMap_AffineKernel detector KERNEL_AFFINE_MULTIBIAS
              (kernelMode_of config weights biases)) (\<lambda>affineKernel.
      bind (AffineFunctionMulti_ctor config affineKernel (TransformOp operationConfig)
              weights biases weightScales) (\<lambda>f. Inr (Multi f)))))))"

definition AffineFunction_Create ::
  "('accel, 'cfg, 'r) AccelerationDetector \<Rightarrow> TransformFactoryConfig \<Rightarrow> OperationConfig \<Rightarrow>
   exn + ('accel, 'cfg, 'r) AffineFunctionPtr" where
  "AffineFunction_Create detector config operationConfig =
     (if OpBiasMode operationConfig = Gna2BiasModeGrouping
      then createAffineMultiFunction detector config operationConfig
      else createAffineSingleFunction detector config operationConfig)"

definition Transform_GetOperand ::
  "('accel, 'cfg, 'r, 'z) AffineFunction_scheme \<Rightarrow> u32 \<Rightarrow> exn + Tensor" where
  \<comment> \<open>Modelled from the spec: \<open>Transform::GetOperand\<close> of the base class (Transform.cpp is
     not among the sources): the base owns the input and the output tensor; any other role
     is the "not present" error.\<close>
  "Transform_GetOperand f operandIndex =
     (if operandIndex = InputOperandIndex then GetOperandIfExistOrThrow (Some (Input f))
      else if operandIndex = OutputOperandIndex then GetOperandIfExistOrThrow (Some (Output f))
      else Inl OperandNotPresent)"

definition AffineFunction_GetOperand ::
  "('accel, 'cfg, 'r, 'z) AffineFunction_scheme \<Rightarrow> u32 \<Rightarrow> exn + Tensor" where
  "AffineFunction_GetOperand f operandIndex =
     (if operandIndex = WeightOperandIndex then GetOperandIfExistOrThrow (Some (Weights f))
      else if operandIndex = BiasOperandIndex
        then GetOperandIfExistOrThrow (Some (Tensor.truncate (Biases f)))
      else Transform_GetOperand f operandIndex)"

definition AffineFunctionMulti_GetOperand ::
  "('accel, 'cfg, 'r) AffineFunctionMulti \<Rightarrow> u32 \<Rightarrow> exn + Tensor" where
  "AffineFunctionMulti_GetOperand f operandIndex =
     (if operandIndex = WeightScaleFactorOperandIndex
        then GetOperandIfExistOrThrow (WeightScaleFactors f)
      else AffineFunction_GetOperand f operandIndex)"

text \<open>The virtual call \<open>GetOperand\<close> on what \<open>AffineFunction::Create\<close> returned.\<close>

fun GetOperand :: "('accel, 'cfg, 'r) AffineFunctionPtr \<Rightarrow> u32 \<Rightarrow> exn + Tensor" where
  "GetOperand (Single f) operandIndex = AffineFunction_GetOperand f operandIndex"
| "GetOperand (Multi f) operandIndex = AffineFunctionMulti_GetOperand f operandIndex"

definition ui32_1 :: u32 where
  "ui32_1 = 1"

definition ValidateActiveList ::
  "('accel, 'cfg, 'r) AffineFunctionSingle \<Rightarrow> ActiveList \<Rightarrow> exn + unit" where
  "ValidateActiveList f activeList =
     bind (Tensor_at (Output f) GNA_DIM_H) (\<lambda>h.
     bind (Expect_InRange (IndicesCount activeList) ui32_1 h Gna2StatusActiveListIndicesInvalid)
       (\<lambda>_.
     Expect_InSet (Type (Mode (Biases f)))
       [Gna2DataTypeInt32, Gna2DataTypeCompoundBias]
       Gna2StatusModelConfigurationInvalid))"

definition catch_out_of_range :: "exn + 'a \<Rightarrow> exn \<Rightarrow> exn + 'a" where
  \<comment> \<open>\<open>try { body } catch (const std::out_of_range&) { throw handler; }\<close>\<close>
  "catch_out_of_range body handler =
     (case body of Inl std_out_of_range \<Rightarrow> Inl handler | Inl e \<Rightarrow> Inl e | Inr v \<Rightarrow> Inr v)"

text \<open>
  \<open>Transform::createExecutionConfig\<close> is not among the sources: it is a parameter of
  \<open>Compute\<close>, from the configuration block built at construction, the layer configuration
  and the execution context to the execution configuration (or an exception).
\<close>

definition AffineFunctionSingle_Compute ::
  "(KernelConfig \<Rightarrow> LayerConfiguration option \<Rightarrow> 'e \<Rightarrow> exn + 'cfg) \<Rightarrow>
   ('accel, 'cfg, 'r) AffineFunctionSingle \<Rightarrow> 'accel \<Rightarrow> LayerConfiguration option \<Rightarrow> 'e \<Rightarrow>
   exn + 'r" where
  "AffineFunctionSingle_Compute createExecutionConfig f accel layerConfiguration execution =
     bind (createExecutionConfig (hiddenConfig f) layerConfiguration execution)
       (\<lambda>executionConfig.
     catch_out_of_range
       (case (case layerConfiguration of None \<Rightarrow> None | Some lc \<Rightarrow> ActList lc) of
          Some actList \<Rightarrow>
            bind (KernelMap_at (kernelsAl f) accel) (\<lambda>entry.
              Inr (entry executionConfig
                     \<lparr>indices = Indices actList, count = IndicesCount actList\<rparr>))
        | None \<Rightarrow>
            bind (KernelMap_at (kernels f) accel) (\<lambda>entry. Inr (entry executionConfig)))
       (GnaException Gna2StatusNotImplemented))"

section \<open>Pooling (PoolingFunctions.cpp)\<close>

datatype nn_operation =
    INTEL_AFFINE
  | INTEL_AFFINE_DIAGONAL
  | INTEL_AFFINE_MULTIBIAS
  | INTEL_CONVOLUTIONAL
  | INTEL_CONVOLUTIONAL_2D
  | INTEL_COPY
  | INTEL_DEINTERLEAVE
  | INTEL_GMM
  | INTEL_INTERLEAVE
  | INTEL_RECURRENT

datatype nn_pool_type = INTEL_NO_POOLING | INTEL_MAX_POOLING | INTEL_SUM_POOLING | NUM_POOLING_TYPES

text \<open>
  \<open>Gna2PoolingMode\<close> is a C enumeration: \<open>Gna2PoolingModeOther\<close> stands for a value that
  is none of the three named ones.
\<close>

datatype Gna2PoolingMode =
    Gna2PoolingModeDisabled
  | Gna2PoolingModeMax
  | Gna2PoolingModeSum
  | Gna2PoolingModeOther

datatype KernelPoolingMode = KernelPoolingModeNone | KernelPoolingModeMax | KernelPoolingModeSum

text \<open>Parameter indices of a convolution operation (\<open>gna2-model-api.h\<close>).\<close>

definition PoolingModeParamIndex :: u32 where "PoolingModeParamIndex = 2"
definition PoolingWindowParamIndex :: u32 where "PoolingWindowParamIndex = 3"
definition PoolingStrideParamIndex :: u32 where "PoolingStrideParamIndex = 4"

text \<open>
  A range limit of a capability table: minimum, maximum, multiplier and the status to raise.
\<close>

record RangeLimits =
  Min :: u32
  Max :: u32
  Multiplier :: u32
  Error :: Gna2Status

type_synonym ShapeLimits = "gna_tensor_dim \<rightharpoonup> RangeLimits"

text \<open>
  \<open>CNN_POOL_SIZE_MIN\<close> and \<open>CNN_POOL_SIZE_MAX\<close> are defined outside the sources: the two
  bounds are parameters of the limit tables.
\<close>

record PoolSizeBounds =
  CNN_POOL_SIZE_MIN :: u32
  CNN_POOL_SIZE_MAX :: u32

definition windowLimits :: "PoolSizeBounds \<Rightarrow> nn_operation \<rightharpoonup> ShapeLimits" where
  "windowLimits b =
     [INTEL_CONVOLUTIONAL \<mapsto>
        [GNA_DIM_W \<mapsto> \<lparr>Min = CNN_POOL_SIZE_MIN b, Max = CNN_POOL_SIZE_MAX b, Multiplier = 1,
                        Error = Gna2StatusCnnErrorPoolSize\<rparr>]]"

definition strideLimits :: "PoolSizeBounds \<Rightarrow> nn_operation \<rightharpoonup> ShapeLimits" where
  "strideLimits b =
     [INTEL_CONVOLUTIONAL \<mapsto>
        [GNA_DIM_W \<mapsto> \<lparr>Min = CNN_POOL_SIZE_MIN b, Max = CNN_POOL_SIZE_MAX b, Multiplier = 1,
                        Error = Gna2StatusCnnErrorPoolStride\<rparr>]]"

definition limits_at :: "(nn_operation \<rightharpoonup> ShapeLimits) \<Rightarrow> nn_operation \<Rightarrow> exn + ShapeLimits" where
  "limits_at table operation =
     (case table operation of None \<Rightarrow> Inl std_out_of_range | Some l \<Rightarrow> Inr l)"

definition Expect_MultiplicityOf :: "u32 \<Rightarrow> u32 \<Rightarrow> Gna2Status \<Rightarrow> exn + unit" where
  \<comment> \<open>Modelled from the spec: the multiple-of constraint of a capability entry (Expect.h is
     not among the sources): a value that is not a multiple throws the status.\<close>
  "Expect_MultiplicityOf val multiplier status =
     (if multiplier \<noteq> 0 \<and> val mod multiplier = 0 then Inr () else Inl (GnaException status))"

fun ExpectDimensionsValid :: "(gna_tensor_dim \<times> u32) list \<Rightarrow> ShapeLimits \<Rightarrow> exn + unit" where
  "ExpectDimensionsValid [] limits = Inr ()"
| "ExpectDimensionsValid ((d, v) # dims) limits =
     (case limits d of
        None \<Rightarrow> Inl std_out_of_range
      | Some l \<Rightarrow>
          bind (Expect_InRange v (Min l) (Max l) (Error l)) (\<lambda>_.
          bind (Expect_MultiplicityOf v (Multiplier l) (Error l)) (\<lambda>_.
          ExpectDimensionsValid dims limits)))"

definition ExpectShapeIsValid :: "Shape \<Rightarrow> ShapeLimits \<Rightarrow> exn + unit" where
  \<comment> \<open>Modelled from the spec: \<open>GNA::ExpectShapeIsValid(shape, limits)\<close> of the validator,
     which is not among the sources: every dimension of the shape is checked against its
     limit (range, then multiple-of), and a violation raises the error code of the limit.\<close>
  "ExpectShapeIsValid dimensions limits = ExpectDimensionsValid (Shape_items dimensions) limits"

record PoolingConfig =
  PoolingConfig_Mode :: KernelPoolingMode
  PoolingConfig_Size :: u32
  PoolingConfig_Step :: u32

record ('accel, 'pk) PoolingFunction =
  PoolMode :: KernelPoolingMode
  Window :: Shape
  Stride :: Shape
  pool_kernels :: "'accel \<rightharpoonup> 'pk"
  pool_hiddenConfig :: PoolingConfig
  OutputsPerFilterCount :: u32
  OutputDimensions :: Shape

text \<open>
  The loop of the constructor over the dimensions of \<open>Stride\<close>. The state is
  \<open>OutputDimensions\<close> and \<open>OutputsPerFilterCount\<close>. The division is unsigned 32-bit; a zero
  stride traps. \<open>OutputDimensions[dim.first]\<close> is read right after it is written, so the
  value written is used.
\<close>

fun output_dimensions_loop ::
  "Shape \<Rightarrow> (gna_tensor_dim \<times> u32) list \<Rightarrow> Shape \<times> u32 \<Rightarrow> exn + Shape \<times> u32" where
  "output_dimensions_loop inputDimensions [] acc = Inr acc"
| "output_dimensions_loop inputDimensions ((d, st) # dims) (outputDimensions, outputsPerFilterCount) =
     (if GNA_DIM_D \<noteq> d then
        bind (Shape_at inputDimensions d) (\<lambda>inputExtent.
        if st = 0 then Inl DivideByZero
        else
          let out = (inputExtent - 1) div st + 1 in
          bind (Expect_InRange out ui32_1 inputExtent Gna2StatusCnnErrorPoolSize) (\<lambda>_.
          output_dimensions_loop inputDimensions dims
            (outputDimensions(d \<mapsto> out), outputsPerFilterCount * out)))
      else output_dimensions_loop inputDimensions dims (outputDimensions, outputsPerFilterCount))"

definition PoolingFunction_ctor ::
  "PoolSizeBounds \<Rightarrow> nn_operation \<Rightarrow> Shape \<Rightarrow> Shape \<Rightarrow> Shape \<Rightarrow> KernelPoolingMode \<Rightarrow>
   ('accel \<rightharpoonup> 'pk) \<Rightarrow> exn + ('accel, 'pk) PoolingFunction" where
  "PoolingFunction_ctor bounds operation inputDimensions window stride mode kernelsIn =
     bind (Shape_at window GNA_DIM_W) (\<lambda>windowW.
     bind (Shape_at stride GNA_DIM_W) (\<lambda>strideW.
     bind (Expect_InSet mode [KernelPoolingModeMax, KernelPoolingModeSum]
             Gna2StatusCnnErrorPoolType) (\<lambda>_.
     bind (ExecuteForModelItem
             (bind (limits_at (strideLimits bounds) operation) (ExpectShapeIsValid stride))
             GNA2_DISABLED (uint PoolingStrideParamIndex)) (\<lambda>_.
     bind (ExecuteForModelItem
             (bind (limits_at (windowLimits bounds) operation) (ExpectShapeIsValid window))
             GNA2_DISABLED (uint PoolingWindowParamIndex)) (\<lambda>_.
     bind (Shape_at inputDimensions GNA_DIM_D) (\<lambda>depth.
     bind (output_dimensions_loop inputDimensions (Shape_items stride)
             ([GNA_DIM_D \<mapsto> depth], 1)) (\<lambda>(outputDimensions, outputsPerFilterCount).
     Inr \<lparr>PoolMode = mode, Window = window, Stride = stride, pool_kernels = kernelsIn,
          pool_hiddenConfig = \<lparr>PoolingConfig_Mode = mode, PoolingConfig_Size = windowW,
                               PoolingConfig_Step = strideW\<rparr>,
          OutputsPerFilterCount = outputsPerFilterCount,
          OutputDimensions = outputDimensions\<rparr>)))))))"

text \<open>
  The legacy layer description (\<open>nn_layer_conv\<close>) and the validator of the layer; only the
  fields the pooling code reads.
\<close>

record nn_layer_conv =
  poolType :: nn_pool_type
  nPoolSize :: u32
  nPoolStride :: u32

record LayerValidator =
  ValidatorOperation :: nn_operation

text \<open>
  What the pooling code needs from outside the sources: the kernel map of
  \<open>AccelerationDetector::GetKernelMap<ConvolutionPoolingKernel>(KERNEL_POOLING, inputMode)\<close>
  and the conversions of \<open>PoolingMode\<close> from the two pooling enumerations
  (PoolingMode.h). They are parameters of \<open>Create\<close>.
\<close>

record ('accel, 'pk, 'mode) PoolingEnvironment =
  GetKernelMap_Pooling :: "kernel_op \<Rightarrow> 'mode \<Rightarrow> exn + ('accel \<rightharpoonup> 'pk)"
  PoolingMode_of_legacy :: "nn_pool_type \<Rightarrow> exn + KernelPoolingMode"
  PoolingMode_of_api :: "Gna2PoolingMode \<Rightarrow> exn + KernelPoolingMode"

definition PoolingFunction_Create_legacy ::
  "PoolSizeBounds \<Rightarrow> ('accel, 'pk, 'mode) PoolingEnvironment \<Rightarrow> nn_layer_conv \<Rightarrow> Shape \<Rightarrow>
   LayerValidator \<Rightarrow> 'mode \<Rightarrow> exn + ('accel, 'pk) PoolingFunction option" where
  "PoolingFunction_Create_legacy bounds env layerDetails inputDimensions validatorIn inputMode =
     (case ValidatorOperation validatorIn of
        INTEL_CONVOLUTIONAL \<Rightarrow>
          (let cnn = layerDetails;
               type = poolType cnn;
               stride = [GNA_DIM_W \<mapsto> nPoolStride cnn];
               window = [GNA_DIM_W \<mapsto> nPoolSize cnn]
           in
           if INTEL_NO_POOLING \<noteq> type then
             (case ValidatorOperation validatorIn of
                INTEL_CONVOLUTIONAL \<Rightarrow>
                  bind (GetKernelMap_Pooling env KERNEL_POOLING inputMode) (\<lambda>kernelMap.
                  bind (PoolingMode_of_legacy env type) (\<lambda>mode.
                  bind (PoolingFunction_ctor bounds (ValidatorOperation validatorIn)
                          inputDimensions window stride mode kernelMap) (\<lambda>pf.
                  Inr (Some pf))))
              | _ \<Rightarrow> Inl (GnaException Gna2StatusXnnErrorLyrOperation))
           else Inr None)
      | _ \<Rightarrow> Inl (GnaException Gna2StatusXnnErrorLyrOperation))"

text \<open>
  The operation descriptor of the API (\<open>Gna2Operation\<close>), as far as the pooling code reads
  it: the three pooling parameters, each absent (\<open>None\<close>: a null pointer, or an index at or
  beyond \<open>NumberOfParameters\<close>) or holding its value. A \<open>Gna2Shape\<close> is the list of its
  dimensions.
\<close>

type_synonym Gna2Shape = "u32 list"

record Gna2Operation =
  PoolingModeParameter :: "Gna2PoolingMode option"
  PoolingWindowParameter :: "Gna2Shape option"
  PoolingStrideParameter :: "Gna2Shape option"

definition HasParameter :: "Gna2Operation \<Rightarrow> u32 \<Rightarrow> bool" where
  \<comment> \<open>Modelled from the spec: \<open>ModelWrapper::HasParameter\<close> (ModelWrapper.h is not among the
     sources): whether the descriptor supplies the parameter at the index.\<close>
  "HasParameter apiOperation parameterIndex =
     (if parameterIndex = PoolingModeParamIndex then PoolingModeParameter apiOperation \<noteq> None
      else if parameterIndex = PoolingWindowParamIndex then PoolingWindowParameter apiOperation \<noteq> None
      else if parameterIndex = PoolingStrideParamIndex then PoolingStrideParameter apiOperation \<noteq> None
      else False)"

definition ExpectParameterAvailable :: "Gna2Operation \<Rightarrow> u32 \<Rightarrow> exn + unit" where
  \<comment> \<open>Modelled from the spec: \<open>ModelWrapper::ExpectParameterAvailable\<close> (ModelWrapper.h is not
     among the sources): a parameter the descriptor does not supply is a model-configuration
     error.\<close>
  "ExpectParameterAvailable apiOperation parameterIndex =
     (if HasParameter apiOperation parameterIndex then Inr ()
      else Inl (GnaException Gna2StatusModelConfigurationInvalid))"

definition GetOptionalParameter_PoolingMode ::
  "Gna2Operation \<Rightarrow> u32 \<Rightarrow> Gna2PoolingMode \<Rightarrow> Gna2PoolingMode" where
  \<comment> \<open>Modelled from the spec: \<open>ModelWrapper::GetOptionalParameter<Gna2PoolingMode>\<close>
     (ModelWrapper.h is not among the sources): the value of the parameter, or the default
     when the descriptor does not supply it.\<close>
  "GetOptionalParameter_PoolingMode apiOperation parameterIndex defaultValue =
     (if parameterIndex = PoolingModeParamIndex
      then (case PoolingModeParameter apiOperation of None \<Rightarrow> defaultValue | Some m \<Rightarrow> m)
      else defaultValue)"

definition GetParameter_Shape :: "Gna2Operation \<Rightarrow> u32 \<Rightarrow> exn + Gna2Shape" where
  \<comment> \<open>Modelled from the spec: \<open>ModelWrapper::GetParameter<Gna2Shape>\<close> (ModelWrapper.h is not
     among the sources): the value of a parameter that must be available.\<close>
  "GetParameter_Shape apiOperation parameterIndex =
     bind (ExpectParameterAvailable apiOperation parameterIndex) (\<lambda>_.
       if parameterIndex = PoolingWindowParamIndex
         then (case PoolingWindowParameter apiOperation of
                 None \<Rightarrow> Inl (GnaException Gna2StatusModelConfigurationInvalid) | Some v \<Rightarrow> Inr v)
       else if parameterIndex = PoolingStrideParamIndex
         then (case PoolingStrideParameter apiOperation of
                 None \<Rightarrow> Inl (GnaException Gna2StatusModelConfigurationInvalid) | Some v \<Rightarrow> Inr v)
       else Inl (GnaException Gna2StatusModelConfigurationInvalid))"

definition GNA_TENSOR_W :: "gna_tensor_dim list" where
  "GNA_TENSOR_W = [GNA_DIM_W]"

definition Shape_Create :: "Gna2Shape \<Rightarrow> gna_tensor_dim list \<Rightarrow> exn + Shape" where
  \<comment> \<open>Modelled from the spec: \<open>Shape::Create(apiShape, order)\<close> (Shape.h is not among the
     sources): the shape that names the dimensions of the API shape by the layout; an API
     shape of another rank is a model-configuration error.\<close>
  "Shape_Create apiShape order =
     (if length apiShape = length order then Inr (map_of (zip order apiShape))
      else Inl (GnaException Gna2StatusModelConfigurationInvalid))"

definition ModelErrorHelper_ExpectInSet :: "'a \<Rightarrow> 'a list \<Rightarrow> exn + unit" where
  \<comment> \<open>Modelled from the spec: \<open>ModelErrorHelper::ExpectInSet(val, {..}, itemType)\<close>, which
     is not among the sources: a value outside the set is a model-configuration error.\<close>
  "ModelErrorHelper_ExpectInSet val allowed =
     Expect_InSet val allowed Gna2StatusModelConfigurationInvalid"

definition ExpectValid :: "Gna2Operation \<Rightarrow> exn + unit" where
  "ExpectValid apiOperation =
     (let hasPoolingWindow = HasParameter apiOperation PoolingWindowParamIndex;
          hasPoolingStride = HasParameter apiOperation PoolingStrideParamIndex
      in
      if hasPoolingWindow \<or> hasPoolingStride then
        bind (ExpectParameterAvailable apiOperation PoolingModeParamIndex) (\<lambda>_.
        bind (ExpectParameterAvailable apiOperation PoolingWindowParamIndex) (\<lambda>_.
        ExpectParameterAvailable apiOperation PoolingStrideParamIndex))
      else Inr ())"

definition PoolingFunction_Create ::
  "PoolSizeBounds \<Rightarrow> ('accel, 'pk, 'mode) PoolingEnvironment \<Rightarrow> Gna2Operation \<Rightarrow> Shape \<Rightarrow>
   LayerValidator \<Rightarrow> 'mode \<Rightarrow> exn + ('accel, 'pk) PoolingFunction option" where
  "PoolingFunction_Create bounds env apiOperation inputDimensions validatorIn inputMode =
     bind (Expect_Equal INTEL_CONVOLUTIONAL (ValidatorOperation validatorIn)
             Gna2StatusXnnErrorLyrOperation) (\<lambda>_.
     bind (ExpectValid apiOperation) (\<lambda>_.
     let poolingMode = GetOptionalParameter_PoolingMode apiOperation PoolingModeParamIndex
                         Gna2PoolingModeDisabled
     in
     if Gna2PoolingModeMax = poolingMode \<or> Gna2PoolingModeSum = poolingMode then
       bind (GetParameter_Shape apiOperation PoolingStrideParamIndex) (\<lambda>apiStride.
       bind (Shape_Create apiStride GNA_TENSOR_W) (\<lambda>strideShape.
       bind (GetParameter_Shape apiOperation PoolingWindowParamIndex) (\<lambda>apiWindow.
       bind (Shape_Create apiWindow GNA_TENSOR_W) (\<lambda>windowShape.
       bind (GetKernelMap_Pooling env KERNEL_POOLING inputMode) (\<lambda>kernelMap.
       bind (PoolingMode_of_api env poolingMode) (\<lambda>mode.
       bind (PoolingFunction_ctor bounds (ValidatorOperation validatorIn) inputDimensions
               windowShape strideShape mode kernelMap) (\<lambda>pf.
       Inr (Some pf))))))))
     else
       bind (ExecuteForModelItem
               (ModelErrorHelper_ExpectInSet poolingMode [Gna2PoolingModeDisabled])
               GNA2_DISABLED (uint PoolingModeParamIndex)) (\<lambda>_.
       Inr None)))"

section \<open>Windows driver interface (WindowsDriverInterface.h)\<close>

type_synonym HANDLE = u64

definition INVALID_HANDLE_VALUE :: HANDLE where
  "INVALID_HANDLE_VALUE = - 1"

text \<open>
  \<open>WinHandle\<close> holds one OS handle. The operating system is the list of handles that
  \<open>CloseHandle\<close> was called on, in order. The class has no copy constructor and no copy
  assignment (both deleted): the operations below are all the ways to make or change one.
\<close>

record WinHandle =
  deviceHandle :: HANDLE

definition WinHandle_default :: WinHandle where
  "WinHandle_default = \<lparr>deviceHandle = INVALID_HANDLE_VALUE\<rparr>"

definition WinHandle_explicit :: "HANDLE \<Rightarrow> WinHandle" where
  "WinHandle_explicit handle = \<lparr>deviceHandle = handle\<rparr>"

definition WinHandle_dtor :: "WinHandle \<Rightarrow> HANDLE list \<Rightarrow> WinHandle \<times> HANDLE list" where
  "WinHandle_dtor w closed =
     (if INVALID_HANDLE_VALUE \<noteq> deviceHandle w
      then (w\<lparr>deviceHandle := INVALID_HANDLE_VALUE\<rparr>, closed @ [deviceHandle w])
      else (w, closed))"

definition WinHandle_Set :: "WinHandle \<Rightarrow> HANDLE \<Rightarrow> exn + WinHandle" where
  "WinHandle_Set w handle =
     bind (Expect_Equal INVALID_HANDLE_VALUE (deviceHandle w) Gna2StatusIdentifierInvalid) (\<lambda>_.
     Inr (w\<lparr>deviceHandle := handle\<rparr>))"

definition WinHandle_to_HANDLE :: "WinHandle \<Rightarrow> HANDLE" where
  "WinHandle_to_HANDLE w = deviceHandle w"

text \<open>
  A lifetime of a wrapper: any sequence of \<open>Set\<close> calls (a call that throws leaves the
  wrapper as it was), then the destructor.
\<close>

fun WinHandle_Sets :: "WinHandle \<Rightarrow> HANDLE list \<Rightarrow> WinHandle" where
  "WinHandle_Sets w [] = w"
| "WinHandle_Sets w (h # hs) =
     (case WinHandle_Set w h of Inl e \<Rightarrow> WinHandle_Sets w hs | Inr w' \<Rightarrow> WinHandle_Sets w' hs)"

definition WinHandle_lifetime :: "WinHandle \<Rightarrow> HANDLE list \<Rightarrow> HANDLE list \<Rightarrow> WinHandle \<times> HANDLE list" where
  "WinHandle_lifetime w hs closed = WinHandle_dtor (WinHandle_Sets w hs) closed"

text \<open>
  The memory-mapping table of the driver interface: \<open>memoryMapRequests\<close>, from mapping id to
  the overlapped request kept for it (named by a number here).
\<close>

record WindowsDriverInterface =
  memoryMapRequests :: "u64 \<rightharpoonup> nat"

text \<open>
  The wait of \<open>MemoryMap\<close> for the buffer to become visible. \<open>visible k\<close> says whether the
  device reports the mapping after \<open>k\<close> delays. The loop sleeps
  \<open>WAIT_FOR_MAP_MILLISECONDS\<close> per iteration and gives up after
  \<open>WAIT_FOR_MAP_ITERATIONS\<close> iterations; it returns the number of iterations made and
  the time slept.
\<close>

function wait_for_map :: "int \<Rightarrow> int \<Rightarrow> (nat \<Rightarrow> bool) \<Rightarrow> nat \<Rightarrow> int \<Rightarrow> nat \<times> int" where
  \<comment> \<open>Modelled from the spec: the retry loop of \<open>WindowsDriverInterface::MemoryMap\<close>
     (WindowsDriverInterface.cpp is not among the sources): registration for a buffer that is
     not yet visible is retried up to a fixed iteration bound with a fixed delay between
     attempts.\<close>
  "wait_for_map WAIT_FOR_MAP_ITERATIONS WAIT_FOR_MAP_MILLISECONDS visible i slept =
     (if \<not> visible i \<and> int i < WAIT_FOR_MAP_ITERATIONS
      then wait_for_map WAIT_FOR_MAP_ITERATIONS WAIT_FOR_MAP_MILLISECONDS visible (Suc i)
             (slept + WAIT_FOR_MAP_MILLISECONDS)
      else (i, slept))"
  by pat_completeness auto
termination
  by (relation "measure (\<lambda>(n, ms, visible, i, slept). nat (n - int i))") auto

declare wait_for_map.simps [simp del]

definition MemoryMap ::
  "int \<Rightarrow> int \<Rightarrow> (nat \<Rightarrow> bool) \<Rightarrow> u64 \<Rightarrow> nat \<Rightarrow> WindowsDriverInterface \<Rightarrow>
   exn + (u64 \<times> WindowsDriverInterface)" where
  \<comment> \<open>Modelled from the spec: \<open>WindowsDriverInterface::MemoryMap\<close>
     (WindowsDriverInterface.cpp is not among the sources): after the wait, a buffer that is
     visible is entered in the table under its mapping id, which is returned; exhausting the
     bound is the fatal "memory not mapped" error.\<close>
  "MemoryMap WAIT_FOR_MAP_ITERATIONS WAIT_FOR_MAP_MILLISECONDS visible memoryId request drv =
     (let (i, slept) = wait_for_map WAIT_FOR_MAP_ITERATIONS WAIT_FOR_MAP_MILLISECONDS visible 0 0
      in
      if visible i
      then Inr (memoryId, drv\<lparr>memoryMapRequests := (memoryMapRequests drv)(memoryId \<mapsto> request)\<rparr>)
      else Inl MemoryNotMapped)"

definition MemoryUnmap :: "WindowsDriverInterface \<Rightarrow> u64 \<Rightarrow> exn + WindowsDriverInterface" where
  \<comment> \<open>Modelled from the spec: \<open>WindowsDriverInterface::MemoryUnmap\<close>
     (WindowsDriverInterface.cpp is not among the sources): unmapping removes the entry of
     the mapping id from the table, and is a no-op for an id the table does not hold.\<close>
  "MemoryUnmap drv memoryId =
     (case memoryMapRequests drv memoryId of
        None \<Rightarrow> Inr drv
      | Some request \<Rightarrow> Inr (drv\<lparr>memoryMapRequests := (memoryMapRequests drv)(memoryId := None)\<rparr>))"

section \<open>Recurrent kernel, AVX2 (igemv8_avx2.cpp)\<close>

text \<open>
  A buffer is the list of the elements that can be read from its pointer on, so its length
  is the readable extent of the memory behind the pointer, which may exceed the element
  count the configuration gives; a pointer into it is an offset. A read that leaves the
  readable extent is a segmentation fault and ends the kernel. A 256-bit register is the
  list of its lanes: sixteen 16-bit lanes or eight 32-bit lanes. The intrinsics are modelled
  lane by lane as Intel documents them; signed 32-bit arithmetic wraps.
\<close>

type_synonym i8 = "8 word"
type_synonym i16 = "16 word"
type_synonym i32 = "32 word"

datatype kernel_fault = SegmentationFault

definition and_then :: "kernel_fault + 'a \<Rightarrow> ('a \<Rightarrow> kernel_fault + 'b) \<Rightarrow> kernel_fault + 'b" where
  "and_then m f = (case m of Inl e \<Rightarrow> Inl e | Inr v \<Rightarrow> f v)"

record nn_bias_c =
  bias :: i32
  multiplier :: u8

record RecurrentConfig =
  outputElementCount :: u32
  inputElementCount :: u32
  feedbackBuffer :: "i16 list"
  biasesCompound :: "nn_bias_c list"
  weights1B :: "i8 list"

record RecurrentRequestConfig =
  Inputs :: "i16 list"
  Transform :: RecurrentConfig

record ExecutionKernelConfig =
  RequestConfig :: RecurrentRequestConfig

definition read_at :: "'a list \<Rightarrow> nat \<Rightarrow> kernel_fault + 'a" where
  "read_at mem p = (if p < length mem then Inr (mem ! p) else Inl SegmentationFault)"

definition sixteen_at :: "'a list \<Rightarrow> nat \<Rightarrow> 'a list" where
  "sixteen_at mem p =
     [mem ! p, mem ! (p + 1), mem ! (p + 2), mem ! (p + 3), mem ! (p + 4), mem ! (p + 5),
      mem ! (p + 6), mem ! (p + 7), mem ! (p + 8), mem ! (p + 9), mem ! (p + 10),
      mem ! (p + 11), mem ! (p + 12), mem ! (p + 13), mem ! (p + 14), mem ! (p + 15)]"

definition mm256_setzero_si256 :: "i32 list" where
  "mm256_setzero_si256 = [0, 0, 0, 0, 0, 0, 0, 0]"

definition mm256_lddqu_si256 :: "i16 list \<Rightarrow> nat \<Rightarrow> kernel_fault + i16 list" where
  \<comment> \<open>An unaligned load of sixteen 16-bit lanes: all of them have to be readable.\<close>
  "mm256_lddqu_si256 mem p =
     (if p + 16 \<le> length mem then Inr (sixteen_at mem p) else Inl SegmentationFault)"

definition mm_lddqu_si128 :: "i8 list \<Rightarrow> nat \<Rightarrow> kernel_fault + i8 list" where
  \<comment> \<open>An unaligned load of sixteen bytes: all of them have to be readable.\<close>
  "mm_lddqu_si128 mem p =
     (if p + 16 \<le> length mem then Inr (sixteen_at mem p) else Inl SegmentationFault)"

definition mm256_cvtepi8_epi16 :: "i8 list \<Rightarrow> i16 list" where
  "mm256_cvtepi8_epi16 a = map scast a"

fun mm256_madd_epi16 :: "i16 list \<Rightarrow> i16 list \<Rightarrow> i32 list" where
  "mm256_madd_epi16 (a0 # a1 # a) (b0 # b1 # b) =
     (scast a0 * scast b0 + scast a1 * scast b1) # mm256_madd_epi16 a b"
| "mm256_madd_epi16 a b = []"

definition mm256_add_epi32 :: "i32 list \<Rightarrow> i32 list \<Rightarrow> i32 list" where
  "mm256_add_epi32 a b = map2 (+) a b"

text \<open>
  The two vector loops have the same body: \<open>mem\<close> is the input or the feedback buffer,
  \<open>p\<close> the pointer into it, \<open>w\<close> the weight pointer. Each round ends with the loads for
  the next one, also when there is no next one.
\<close>

function vector_loop ::
  "i16 list \<Rightarrow> i8 list \<Rightarrow> nat \<Rightarrow> nat \<Rightarrow> nat \<Rightarrow> i16 list \<Rightarrow> i16 list \<Rightarrow> i32 list \<Rightarrow>
   kernel_fault + (nat \<times> nat \<times> i16 list \<times> i16 list \<times> i32 list)" where
  "vector_loop mem wmem pEnd p w v0 v1 v2 =
     (if p < pEnd then
        (let p' = p + 16;
             w' = w + 16;
             v1m = mm256_madd_epi16 v0 v1;
             v2' = mm256_add_epi32 v1m v2
         in case mm256_lddqu_si256 mem p' of
              Inl e \<Rightarrow> Inl e
            | Inr v0' \<Rightarrow>
                (case mm_lddqu_si128 wmem w' of
                   Inl e \<Rightarrow> Inl e
                 | Inr bytes \<Rightarrow>
                     vector_loop mem wmem pEnd p' w' v0' (mm256_cvtepi8_epi16 bytes) v2'))
      else Inr (p, w, v0, v1, v2))"
  by pat_completeness auto
termination
  by (relation "measure (\<lambda>(mem, wmem, pEnd, p, w, v0, v1, v2). pEnd - p)") auto

declare vector_loop.simps [simp del]

function scalar_loop ::
  "i16 list \<Rightarrow> i8 list \<Rightarrow> nat \<Rightarrow> nat \<Rightarrow> nat \<Rightarrow> i32 \<Rightarrow> kernel_fault + (nat \<times> nat \<times> i32)" where
  "scalar_loop mem wmem pEnd p w out =
     (if p < pEnd then
        (case read_at mem p of
           Inl e \<Rightarrow> Inl e
         | Inr x \<Rightarrow>
             (case read_at wmem w of
                Inl e \<Rightarrow> Inl e
              | Inr y \<Rightarrow> scalar_loop mem wmem pEnd (p + 1) (w + 1) (out + scast x * scast y)))
      else Inr (p, w, out))"
  by pat_completeness auto
termination
  by (relation "measure (\<lambda>(mem, wmem, pEnd, p, w, out). pEnd - p)") auto

declare scalar_loop.simps [simp del]

text \<open>
  One iteration of the loop over the biases: the output value, and the two weight pointers
  for the next iteration. \<open>vec_sum\<close> comes from KernelMacros.h, which is not among the
  sources: it is a parameter of the kernel.
\<close>

definition RecurrentKernelImpl1B_body ::
  "(i32 list \<Rightarrow> i32) \<Rightarrow> ExecutionKernelConfig \<Rightarrow> nat \<Rightarrow> nat \<Rightarrow> nat \<Rightarrow>
   kernel_fault + (i32 \<times> nat \<times> nat)" where
  "RecurrentKernelImpl1B_body vec_sum config biasIndex weight weight2 =
     (let T = Transform (RequestConfig config);
          LDA = outputElementCount T + inputElementCount T;
          inputEnd = unat (inputElementCount T) - unat (inputElementCount T mod 16);
          feedbackEnd = unat (outputElementCount T) - unat (outputElementCount T mod 16);
          v2 = mm256_setzero_si256
      in and_then (mm256_lddqu_si256 (Inputs (RequestConfig config)) 0) (\<lambda>v0.
         and_then (mm_lddqu_si128 (weights1B T) weight) (\<lambda>bytes.
         and_then (vector_loop (Inputs (RequestConfig config)) (weights1B T) inputEnd 0 weight
                     v0 (mm256_cvtepi8_epi16 bytes) v2) (\<lambda>(inputPtr, weight, v0, v1, v2).
         and_then (mm256_lddqu_si256 (feedbackBuffer T) 0) (\<lambda>v0.
         and_then (mm_lddqu_si128 (weights1B T) weight2) (\<lambda>bytes.
         and_then (vector_loop (feedbackBuffer T) (weights1B T) feedbackEnd 0 weight2
                     v0 (mm256_cvtepi8_epi16 bytes) v2) (\<lambda>(feedbackPtr, weight2, v0, v1, v2).
         and_then (scalar_loop (Inputs (RequestConfig config)) (weights1B T)
                     (inputEnd + unat (inputElementCount T mod 16)) inputPtr weight
                     (vec_sum v2)) (\<lambda>(inputPtr, weight, out).
         and_then (scalar_loop (feedbackBuffer T) (weights1B T)
                     (feedbackEnd + unat (outputElementCount T mod 16)) feedbackPtr weight2
                     out) (\<lambda>(feedbackPtr, weight2, out).
         and_then (read_at (biasesCompound T) biasIndex) (\<lambda>b.
         Inr (out * ucast (multiplier b) + bias b,
              weight + unat (LDA - inputElementCount T),
              weight2 + unat (LDA - outputElementCount T))))))))))))"

function RecurrentKernelImpl1B_loop ::
  "(i32 list \<Rightarrow> i32) \<Rightarrow> ExecutionKernelConfig \<Rightarrow> nat \<Rightarrow> nat \<Rightarrow> nat \<Rightarrow> i32 list \<Rightarrow>
   kernel_fault + i32 list" where
  "RecurrentKernelImpl1B_loop vec_sum config biasIndex weight weight2 outputs =
     (if biasIndex < unat (outputElementCount (Transform (RequestConfig config))) then
        (case RecurrentKernelImpl1B_body vec_sum config biasIndex weight weight2 of
           Inl e \<Rightarrow> Inl e
         | Inr (out, weight', weight2') \<Rightarrow>
             RecurrentKernelImpl1B_loop vec_sum config (biasIndex + 1) weight' weight2'
               (outputs @ [out]))
      else Inr outputs)"
  by pat_completeness auto
termination
  by (relation "measure (\<lambda>(vec_sum, config, biasIndex, weight, weight2, outputs).
        unat (outputElementCount (Transform (RequestConfig config))) - biasIndex)") auto

declare RecurrentKernelImpl1B_loop.simps [simp del]

definition RecurrentKernelImpl1B ::
  "(i32 list \<Rightarrow> i32) \<Rightarrow> ExecutionKernelConfig \<Rightarrow> kernel_fault + i32 list" where
  "RecurrentKernelImpl1B vec_sum config =
     RecurrentKernelImpl1B_loop vec_sum config 0 0
       (unat (inputElementCount (Transform (RequestConfig config)))) []"

text \<open>
  The naive reference computation, as the claim words it: for output \<open>i\<close>, the dot product
  of the input with weight row \<open>i\<close> plus the dot product of the feedback with feedback-weight
  row \<open>i\<close>, times the multiplier of bias \<open>i\<close>, plus its bias, in wrapping 32-bit arithmetic;
  rows are \<open>LDA = outputElementCount + inputElementCount\<close> apart.
\<close>

definition dot_reference :: "i16 list \<Rightarrow> i8 list \<Rightarrow> nat \<Rightarrow> nat \<Rightarrow> i32" where
  "dot_reference x w row n = sum_list (map (\<lambda>j. scast (x ! j) * scast (w ! (row + j))) [0..<n])"

definition Recurrent_reference :: "ExecutionKernelConfig \<Rightarrow> nat \<Rightarrow> i32" where
  "Recurrent_reference config i =
     (let T = Transform (RequestConfig config);
          n = unat (inputElementCount T);
          m = unat (outputElementCount T);
          LDA = m + n;
          b = biasesCompound T ! i
      in (dot_reference (Inputs (RequestConfig config)) (weights1B T) (i * LDA) n
          + dot_reference (feedbackBuffer T) (weights1B T) (i * LDA + n) m)
         * ucast (multiplier b) + bias b)"

text \<open>
  The readable slack the vector loads need when there is an output to compute: the input
  and the feedback buffer readable to the end of the sixteen elements that follow their
  last full block of sixteen, the weights readable to the end of the sixteen bytes that
  follow the last full block of the last row's feedback weights, and one bias per output.
\<close>

definition readable_with_slack :: "ExecutionKernelConfig \<Rightarrow> bool" where
  "readable_with_slack config =
     (let T = Transform (RequestConfig config);
          n = unat (inputElementCount T);
          m = unat (outputElementCount T)
      in m = 0 \<or>
         (16 * (n div 16) + 16 \<le> length (Inputs (RequestConfig config))
          \<and> 16 * (m div 16) + 16 \<le> length (feedbackBuffer T)
          \<and> (m - 1) * (m + n) + n + 16 * (m div 16) + 16 \<le> length (weights1B T)
          \<and> m \<le> length (biasesCompound T)))"

section \<open>Properties\<close>

subsection \<open>Sequencing and the helpers\<close>

lemma bind_Inr_iff: "bind m f = Inr y \<longleftrightarrow> (\<exists>v. m = Inr v \<and> f v = Inr y)"
  by (cases m) (simp_all add: bind_def)

lemma bind_Inr [simp]: "bind (Inr v) f = f v"
  by (simp add: bind_def)

lemma bind_Inl [simp]: "bind (Inl e) f = Inl e"
  by (simp add: bind_def)

lemma ExecuteForModelItem_Inr:
  "ExecuteForModelItem c i j = Inr v \<longleftrightarrow> c = Inr v"
  by (auto simp: ExecuteForModelItem_def split: sum.splits exn.splits)

lemma Expect_InRange_Inr:
  "Expect_InRange v lo hi st = Inr u \<longleftrightarrow> lo \<le> v \<and> v \<le> hi"
  by (auto simp: Expect_InRange_def)

lemma Shape_at_Inr: "Shape_at s d = Inr v \<longleftrightarrow> s d = Some v"
  by (simp add: Shape_at_def split: option.splits)

lemma Expect_Equal_Inr: "Expect_Equal a b st = Inr u \<longleftrightarrow> a = b"
  by (simp add: Expect_Equal_def)

subsection \<open>Single-bias affine transform: active lists\<close>

lemma Tensor_ctor_Inr:
  "Tensor_ctor shape mode buffer v caps = Inr t \<Longrightarrow> t = \<lparr>Dimensions = shape, Mode = mode, Buffer = buffer\<rparr>"
  by (auto simp: Tensor_ctor_def Let_def bind_Inr_iff)

text \<open>
  Every constructed single-bias transform has an output height: the height of the output
  tensor of the configuration.
\<close>

lemma AffineFunctionSingle_ctor_Output:
  assumes "AffineFunctionSingle_ctor detector config affineKernel transform weights biases = Inr f"
  shows "\<exists>rows. Shape_at (Dimensions (config_output config)) GNA_DIM_H = Inr rows
           \<and> Tensor_at (Output f) GNA_DIM_H = Inr rows"
  using assms
  by (auto simp: AffineFunctionSingle_ctor_def bind_Inr_iff Let_def Tensor_at_def Shape_at_def
      dest!: Tensor_ctor_Inr)

text \<open>
  Claim C1. For a single-bias affine transform whose output has \<open>outputRowCount\<close> rows
  (its height), validation of an active list throws \<open>Gna2StatusActiveListIndicesInvalid\<close>
  exactly when \<open>IndicesCount\<close> is 0 or exceeds the row count; otherwise it throws
  \<open>Gna2StatusModelConfigurationInvalid\<close> exactly when the type of the bias data mode is
  neither int32 nor compound bias; otherwise it passes. So the accepted counts are the
  closed range from 1 to the row count: of the two readings in the specification, only a
  count of 0 is rejected at the low end.
\<close>

theorem ValidateActiveList_accepts_iff:
  assumes "Tensor_at (Output f) GNA_DIM_H = Inr outputRowCount"
  shows "ValidateActiveList f activeList =
    (if IndicesCount activeList = 0 \<or> outputRowCount < IndicesCount activeList
       then Inl (GnaException Gna2StatusActiveListIndicesInvalid)
     else if Type (Mode (Biases f)) \<notin> {Gna2DataTypeInt32, Gna2DataTypeCompoundBias}
       then Inl (GnaException Gna2StatusModelConfigurationInvalid)
     else Inr ())"
  using assms
  by (simp add: ValidateActiveList_def Expect_InRange_def Expect_InSet_def ui32_1_def word_less_1)

text \<open>
  A transform with eight output rows and int32 biases: counts 1 and 8 pass, counts 0 and 9
  are rejected.
\<close>

theorem ValidateActiveList_accepts_iff_witness:
  "(let mode = \<lparr>Type = Gna2DataTypeInt32, TensorMode = Gna2TensorModeDefault, Size = 4\<rparr>;
        t = \<lparr>Dimensions = [GNA_DIM_H \<mapsto> 8, GNA_DIM_W \<mapsto> 1], Mode = mode, Buffer = 64\<rparr>;
        f = \<lparr>Operation = AffineTransform, Input = t, Output = t,
             hiddenConfig = \<lparr>TransformConfig =
                 \<lparr>affine_outputElementCount = 8, affine_inputVectorCount = 1,
                  affine_inputElementCount = 8, input_ptr = 64, output_ptr = 64,
                  weights_ptr = 64, weightScaleFactors = 0, biasesSimple = 64, multiBias = 0,
                  multiBiasVectorCount = 0, bytesPerBias = 4\<rparr>,
                Base = \<lparr>BaseInputs = 64, BaseOutputs = 64\<rparr>\<rparr>,
             kernels = (Map.empty :: nat \<rightharpoonup> (nat \<Rightarrow> nat)), Weights = t,
             Biases = \<lparr>Dimensions = [GNA_DIM_H \<mapsto> 8], Mode = mode, Buffer = 64,
                       VectorIndex = 0, BiasMode = Gna2BiasModeDefault\<rparr>,
             kernelsAl = (Map.empty :: nat \<rightharpoonup> (nat \<Rightarrow> AffineConfigAl \<Rightarrow> nat))\<rparr>
    in Tensor_at (Output f) GNA_DIM_H = Inr 8
       \<and> ValidateActiveList f \<lparr>IndicesCount = 1, Indices = [0]\<rparr> = Inr ()
       \<and> ValidateActiveList f \<lparr>IndicesCount = 8, Indices = [0, 1, 2, 3, 4, 5, 6, 7]\<rparr> = Inr ()
       \<and> ValidateActiveList f \<lparr>IndicesCount = 0, Indices = []\<rparr>
           = Inl (GnaException Gna2StatusActiveListIndicesInvalid)
       \<and> ValidateActiveList f \<lparr>IndicesCount = 9, Indices = [0, 1, 2, 3, 4, 5, 6, 7, 0]\<rparr>
           = Inl (GnaException Gna2StatusActiveListIndicesInvalid))"
proof -
  define mode where "mode = \<lparr>Type = Gna2DataTypeInt32, TensorMode = Gna2TensorModeDefault, Size = 4\<rparr>"
  define t where "t = \<lparr>Dimensions = [GNA_DIM_H \<mapsto> (8 :: u32), GNA_DIM_W \<mapsto> 1], Mode = mode, Buffer = 64\<rparr>"
  define f where "f = \<lparr>Operation = AffineTransform, Input = t, Output = t,
             hiddenConfig = \<lparr>TransformConfig =
                 \<lparr>affine_outputElementCount = 8, affine_inputVectorCount = 1,
                  affine_inputElementCount = 8, input_ptr = 64, output_ptr = 64,
                  weights_ptr = 64, weightScaleFactors = 0, biasesSimple = 64, multiBias = 0,
                  multiBiasVectorCount = 0, bytesPerBias = 4\<rparr>,
                Base = \<lparr>BaseInputs = 64, BaseOutputs = 64\<rparr>\<rparr>,
             kernels = (Map.empty :: nat \<rightharpoonup> (nat \<Rightarrow> nat)), Weights = t,
             Biases = \<lparr>Dimensions = [GNA_DIM_H \<mapsto> 8], Mode = mode, Buffer = 64,
                       VectorIndex = 0, BiasMode = Gna2BiasModeDefault\<rparr>,
             kernelsAl = (Map.empty :: nat \<rightharpoonup> (nat \<Rightarrow> AffineConfigAl \<Rightarrow> nat))\<rparr>"
  have h: "Tensor_at (Output f) GNA_DIM_H = Inr 8"
    by (simp add: f_def t_def Tensor_at_def Shape_at_def)
  have b: "Type (Mode (Biases f)) = Gna2DataTypeInt32"
    by (simp add: f_def mode_def)
  note v = ValidateActiveList_accepts_iff [OF h]
  have "Tensor_at (Output f) GNA_DIM_H = Inr 8
       \<and> ValidateActiveList f \<lparr>IndicesCount = 1, Indices = [0]\<rparr> = Inr ()
       \<and> ValidateActiveList f \<lparr>IndicesCount = 8, Indices = [0, 1, 2, 3, 4, 5, 6, 7]\<rparr> = Inr ()
       \<and> ValidateActiveList f \<lparr>IndicesCount = 0, Indices = []\<rparr>
           = Inl (GnaException Gna2StatusActiveListIndicesInvalid)
       \<and> ValidateActiveList f \<lparr>IndicesCount = 9, Indices = [0, 1, 2, 3, 4, 5, 6, 7, 0]\<rparr>
           = Inl (GnaException Gna2StatusActiveListIndicesInvalid)"
    unfolding v using h by (simp add: b)
  then show ?thesis
    unfolding Let_def f_def t_def mode_def .
qed

subsection \<open>Affine transforms: kernel dispatch\<close>

text \<open>
  Claim C4. Once the execution configuration is built, \<open>Compute\<close> looks the acceleration
  mode up in the active-list kernel map when the layer configuration carries an active
  list, and in the plain kernel map otherwise. A mode with no entry point in that map
  raises \<open>Gna2StatusNotImplemented\<close>; a mode with an entry point runs it, the active-list
  variant with the indices and their count.
\<close>

theorem Compute_dispatch:
  assumes "createExecutionConfig (hiddenConfig f) layerConfiguration execution = Inr executionConfig"
  shows "AffineFunctionSingle_Compute createExecutionConfig f accel layerConfiguration execution =
    (case (case layerConfiguration of None \<Rightarrow> None | Some lc \<Rightarrow> ActList lc) of
       Some actList \<Rightarrow>
         (case kernelsAl f accel of
            None \<Rightarrow> Inl (GnaException Gna2StatusNotImplemented)
          | Some entry \<Rightarrow>
              Inr (entry executionConfig \<lparr>indices = Indices actList, count = IndicesCount actList\<rparr>))
     | None \<Rightarrow>
         (case kernels f accel of
            None \<Rightarrow> Inl (GnaException Gna2StatusNotImplemented)
          | Some entry \<Rightarrow> Inr (entry executionConfig)))"
  using assms
  by (simp add: AffineFunctionSingle_Compute_def catch_out_of_range_def KernelMap_at_def
      split: option.splits)

text \<open>
  A transform with a plain kernel for mode 0 only and an active-list kernel for mode 1
  only: each mode runs its kernel where it has one and is "not implemented" where it has
  none.
\<close>

theorem Compute_dispatch_witness:
  "(let t = \<lparr>Dimensions = [GNA_DIM_H \<mapsto> 8, GNA_DIM_W \<mapsto> 1],
             Mode = \<lparr>Type = Gna2DataTypeInt32, TensorMode = Gna2TensorModeDefault, Size = 4\<rparr>,
             Buffer = 64\<rparr>;
        c = \<lparr>TransformConfig =
                 \<lparr>affine_outputElementCount = 8, affine_inputVectorCount = 1,
                  affine_inputElementCount = 8, input_ptr = 64, output_ptr = 64,
                  weights_ptr = 64, weightScaleFactors = 0, biasesSimple = 64, multiBias = 0,
                  multiBiasVectorCount = 0, bytesPerBias = 4\<rparr>,
                Base = \<lparr>BaseInputs = 64, BaseOutputs = 64\<rparr>\<rparr>;
        f = \<lparr>Operation = AffineTransform, Input = t, Output = t, hiddenConfig = c,
             kernels = [(0 :: nat) \<mapsto> (\<lambda>cfg :: nat. cfg + 1)], Weights = t,
             Biases = Tensor.extend t (BiasTensor.fields 0 Gna2BiasModeDefault),
             kernelsAl = [(1 :: nat) \<mapsto> (\<lambda>(cfg :: nat) al. cfg + unat (count al))]\<rparr>;
        al = \<lparr>IndicesCount = 2, Indices = [0, 3]\<rparr>;
        create = (\<lambda>h l (e :: nat). Inr (e + 10))
    in create (hiddenConfig f) None 5 = Inr 15
       \<and> AffineFunctionSingle_Compute create f 0 None 5 = Inr 16
       \<and> AffineFunctionSingle_Compute create f 1 None 5 = Inl (GnaException Gna2StatusNotImplemented)
       \<and> AffineFunctionSingle_Compute create f 1 (Some \<lparr>ActList = Some al\<rparr>) 5 = Inr 17
       \<and> AffineFunctionSingle_Compute create f 0 (Some \<lparr>ActList = Some al\<rparr>) 5
           = Inl (GnaException Gna2StatusNotImplemented)
       \<and> AffineFunctionSingle_Compute create f 0 (Some \<lparr>ActList = None\<rparr>) 5 = Inr 16)"
proof -
  define t where "t = \<lparr>Dimensions = [GNA_DIM_H \<mapsto> (8 :: u32), GNA_DIM_W \<mapsto> 1],
             Mode = \<lparr>Type = Gna2DataTypeInt32, TensorMode = Gna2TensorModeDefault, Size = 4\<rparr>,
             Buffer = 64\<rparr>"
  define c where "c = \<lparr>TransformConfig =
                 \<lparr>affine_outputElementCount = 8, affine_inputVectorCount = 1,
                  affine_inputElementCount = 8, input_ptr = 64, output_ptr = 64,
                  weights_ptr = 64, weightScaleFactors = 0, biasesSimple = 64, multiBias = 0,
                  multiBiasVectorCount = 0, bytesPerBias = 4\<rparr>,
                Base = \<lparr>BaseInputs = 64, BaseOutputs = 64\<rparr>\<rparr>"
  define f where "f = \<lparr>Operation = AffineTransform, Input = t, Output = t, hiddenConfig = c,
             kernels = [(0 :: nat) \<mapsto> (\<lambda>cfg :: nat. cfg + 1)], Weights = t,
             Biases = Tensor.extend t (BiasTensor.fields 0 Gna2BiasModeDefault),
             kernelsAl = [(1 :: nat) \<mapsto> (\<lambda>(cfg :: nat) al. cfg + unat (count al))]\<rparr>"
  define al where "al = \<lparr>IndicesCount = 2, Indices = [0, 3]\<rparr>"
  define create :: "KernelConfig \<Rightarrow> LayerConfiguration option \<Rightarrow> nat \<Rightarrow> exn + nat"
    where "create = (\<lambda>h l e. Inr (e + 10))"
  have h: "create (hiddenConfig f) l 5 = Inr 15" for l
    by (simp add: create_def)
  note d = Compute_dispatch [of create f _ 5 15, OF h]
  have "create (hiddenConfig f) None 5 = Inr 15
       \<and> AffineFunctionSingle_Compute create f 0 None 5 = Inr 16
       \<and> AffineFunctionSingle_Compute create f 1 None 5 = Inl (GnaException Gna2StatusNotImplemented)
       \<and> AffineFunctionSingle_Compute create f 1 (Some \<lparr>ActList = Some al\<rparr>) 5 = Inr 17
       \<and> AffineFunctionSingle_Compute create f 0 (Some \<lparr>ActList = Some al\<rparr>) 5
           = Inl (GnaException Gna2StatusNotImplemented)
       \<and> AffineFunctionSingle_Compute create f 0 (Some \<lparr>ActList = None\<rparr>) 5 = Inr 16"
    unfolding d using h by (simp add: f_def al_def)
  then show ?thesis
    unfolding Let_def f_def t_def c_def al_def create_def .
qed

subsection \<open>Affine transforms: operands by role\<close>

lemma WeightTensor_ctor_Inr:
  "WeightTensor_ctor a v = Inr t \<Longrightarrow>
   t = \<lparr>Dimensions = ApiShape a, Mode = ApiMode a, Buffer = ApiData a\<rparr>"
  by (auto simp: WeightTensor_ctor_def Tensor_from_api_def dest: Tensor_ctor_Inr)

lemma BiasTensor_ctor_Inr:
  "BiasTensor_ctor a i m v = Inr b \<Longrightarrow>
   Tensor.truncate b = \<lparr>Dimensions = ApiShape a, Mode = ApiMode a, Buffer = ApiData a\<rparr>"
  by (auto simp: BiasTensor_ctor_def Tensor_from_api_def bind_Inr_iff Tensor.truncate_def
      Tensor.extend_def dest!: Tensor_ctor_Inr)

lemma createAffineSingleFunction_Inr:
  assumes "createAffineSingleFunction detector config oc = Inr p"
  shows "\<exists>f. p = Single f \<and> Weights f = \<lparr>Dimensions = ApiShape (WeightsTensor oc), Mode = ApiMode (WeightsTensor oc), Buffer = ApiData (WeightsTensor oc)\<rparr>
          \<and> Tensor.truncate (Biases f) = \<lparr>Dimensions = ApiShape (BiasesTensor oc), Mode = ApiMode (BiasesTensor oc), Buffer = ApiData (BiasesTensor oc)\<rparr>"
  using assms
  by (auto simp: createAffineSingleFunction_def AffineFunctionSingle_ctor_def Let_def
      bind_Inr_iff dest!: WeightTensor_ctor_Inr BiasTensor_ctor_Inr)

lemma createAffineMultiFunction_Inr:
  assumes "createAffineMultiFunction detector config oc = Inr p"
  shows "\<exists>f. p = Multi f \<and> Weights f = \<lparr>Dimensions = ApiShape (WeightsTensor oc), Mode = ApiMode (WeightsTensor oc), Buffer = ApiData (WeightsTensor oc)\<rparr>
          \<and> Tensor.truncate (Biases f) = \<lparr>Dimensions = ApiShape (BiasesTensor oc), Mode = ApiMode (BiasesTensor oc), Buffer = ApiData (BiasesTensor oc)\<rparr>
          \<and> WeightScaleFactors f =
               (if TensorMode (ApiMode (WeightScalesTensor oc)) \<noteq> Gna2TensorModeDisabled
                then Some (\<lparr>Dimensions = ApiShape (WeightScalesTensor oc), Mode = ApiMode (WeightScalesTensor oc), Buffer = ApiData (WeightScalesTensor oc)\<rparr>) else None)"
  using assms
  by (auto simp: createAffineMultiFunction_def AffineFunctionMulti_ctor_def Let_def
      bind_Inr_iff ExecuteForModelItem_Inr Tensor_from_api_def
      dest!: WeightTensor_ctor_Inr BiasTensor_ctor_Inr Tensor_ctor_Inr split: if_splits)

text \<open>
  Claim C5. For an affine transform that \<open>AffineFunction::Create\<close> built from an operation
  descriptor, \<open>GetOperand\<close> returns for the weight role and for the bias role the tensor
  with the shape, the data mode and the buffer of the descriptor's operand; for the
  weight-scale-factor role it does so for the multi-bias variant built with scale factors,
  and throws "not present" otherwise; any role other than input, output, weights, biases
  and weight scale factors throws "not present".
\<close>

theorem GetOperand_roundtrip:
  assumes "AffineFunction_Create detector config oc = Inr p"
  shows "GetOperand p WeightOperandIndex = Inr (\<lparr>Dimensions = ApiShape (WeightsTensor oc), Mode = ApiMode (WeightsTensor oc), Buffer = ApiData (WeightsTensor oc)\<rparr>)
    \<and> GetOperand p BiasOperandIndex = Inr (\<lparr>Dimensions = ApiShape (BiasesTensor oc), Mode = ApiMode (BiasesTensor oc), Buffer = ApiData (BiasesTensor oc)\<rparr>)
    \<and> GetOperand p WeightScaleFactorOperandIndex =
        (if OpBiasMode oc = Gna2BiasModeGrouping
            \<and> TensorMode (ApiMode (WeightScalesTensor oc)) \<noteq> Gna2TensorModeDisabled
         then Inr (\<lparr>Dimensions = ApiShape (WeightScalesTensor oc), Mode = ApiMode (WeightScalesTensor oc), Buffer = ApiData (WeightScalesTensor oc)\<rparr>) else Inl OperandNotPresent)
    \<and> (role \<notin> {InputOperandIndex, OutputOperandIndex, WeightOperandIndex, BiasOperandIndex,
                   WeightScaleFactorOperandIndex} \<longrightarrow>
          GetOperand p role = Inl OperandNotPresent)"
proof (cases "OpBiasMode oc = Gna2BiasModeGrouping")
  case True
  with assms have "createAffineMultiFunction detector config oc = Inr p"
    by (simp add: AffineFunction_Create_def)
  from createAffineMultiFunction_Inr [OF this] obtain f where f: "p = Multi f"
    "Weights f = \<lparr>Dimensions = ApiShape (WeightsTensor oc), Mode = ApiMode (WeightsTensor oc), Buffer = ApiData (WeightsTensor oc)\<rparr>"
    "Tensor.truncate (Biases f) = \<lparr>Dimensions = ApiShape (BiasesTensor oc), Mode = ApiMode (BiasesTensor oc), Buffer = ApiData (BiasesTensor oc)\<rparr>"
    "WeightScaleFactors f =
               (if TensorMode (ApiMode (WeightScalesTensor oc)) \<noteq> Gna2TensorModeDisabled
                then Some (\<lparr>Dimensions = ApiShape (WeightScalesTensor oc), Mode = ApiMode (WeightScalesTensor oc), Buffer = ApiData (WeightScalesTensor oc)\<rparr>) else None)"
    by blast
  then show ?thesis using True
    by (auto simp: AffineFunctionMulti_GetOperand_def AffineFunction_GetOperand_def
        Transform_GetOperand_def GetOperandIfExistOrThrow_def
        InputOperandIndex_def OutputOperandIndex_def WeightOperandIndex_def
        BiasOperandIndex_def WeightScaleFactorOperandIndex_def)
next
  case False
  with assms have "createAffineSingleFunction detector config oc = Inr p"
    by (simp add: AffineFunction_Create_def)
  from createAffineSingleFunction_Inr [OF this] obtain f where f: "p = Single f"
    "Weights f = \<lparr>Dimensions = ApiShape (WeightsTensor oc), Mode = ApiMode (WeightsTensor oc), Buffer = ApiData (WeightsTensor oc)\<rparr>"
    "Tensor.truncate (Biases f) = \<lparr>Dimensions = ApiShape (BiasesTensor oc), Mode = ApiMode (BiasesTensor oc), Buffer = ApiData (BiasesTensor oc)\<rparr>"
    by blast
  then show ?thesis using False
    by (auto simp: AffineFunction_GetOperand_def
        Transform_GetOperand_def GetOperandIfExistOrThrow_def
        InputOperandIndex_def OutputOperandIndex_def WeightOperandIndex_def
        BiasOperandIndex_def WeightScaleFactorOperandIndex_def)
qed

text \<open>
  A single-bias transform built from a descriptor with 8x8 weights and 8 biases.
\<close>

theorem GetOperand_roundtrip_witness:
  "(let mode = \<lparr>Type = Gna2DataTypeInt32, TensorMode = Gna2TensorModeDefault, Size = 4\<rparr>;
        off = \<lparr>Type = Gna2DataTypeNone, TensorMode = Gna2TensorModeDisabled, Size = 0\<rparr>;
        t = \<lparr>Dimensions = [GNA_DIM_H \<mapsto> 8, GNA_DIM_W \<mapsto> 1], Mode = mode, Buffer = 64\<rparr>;
        detector = \<lparr>GetKernelMap_AffineKernel =
                      (\<lambda>operation km. Inr (Map.empty :: nat \<rightharpoonup> (nat \<Rightarrow> nat))),
                    GetKernelMap_AffineActiveListKernel =
                      (\<lambda>operation km. Inr (Map.empty :: nat \<rightharpoonup> (nat \<Rightarrow> AffineConfigAl \<Rightarrow> nat)))\<rparr>;
        config = \<lparr>config_input = t, config_output = t, outputBuffer = 128,
                  validator = (\<lambda>caps tensor. Inr ())\<rparr>;
        w = \<lparr>ApiShape = [GNA_DIM_H \<mapsto> 8, GNA_DIM_W \<mapsto> 8], ApiMode = mode, ApiData = 256\<rparr>;
        b = \<lparr>ApiShape = [GNA_DIM_H \<mapsto> 8], ApiMode = mode, ApiData = 512\<rparr>;
        oc = \<lparr>OpBiasMode = Gna2BiasModeDefault, WeightsTensor = w, BiasesTensor = b,
              BiasVectorIndex = 0,
              WeightScalesTensor = \<lparr>ApiShape = Map.empty, ApiMode = off, ApiData = 0\<rparr>,
              KernelOperation = KERNEL_AFFINE, TransformOp = AffineTransform\<rparr>
    in \<exists>p. AffineFunction_Create detector config oc = Inr p
         \<and> GetOperand p WeightOperandIndex
             = Inr \<lparr>Dimensions = [GNA_DIM_H \<mapsto> 8, GNA_DIM_W \<mapsto> 8], Mode = mode, Buffer = 256\<rparr>
         \<and> GetOperand p BiasOperandIndex
             = Inr \<lparr>Dimensions = [GNA_DIM_H \<mapsto> 8], Mode = mode, Buffer = 512\<rparr>
         \<and> GetOperand p WeightScaleFactorOperandIndex = Inl OperandNotPresent
         \<and> GetOperand p PwlOperandIndex = Inl OperandNotPresent)"
proof -
  define mode where "mode = \<lparr>Type = Gna2DataTypeInt32, TensorMode = Gna2TensorModeDefault, Size = 4\<rparr>"
  define off where "off = \<lparr>Type = Gna2DataTypeNone, TensorMode = Gna2TensorModeDisabled, Size = 0\<rparr>"
  define t where "t = \<lparr>Dimensions = [GNA_DIM_H \<mapsto> (8 :: u32), GNA_DIM_W \<mapsto> 1], Mode = mode, Buffer = 64\<rparr>"
  define detector where "detector = \<lparr>GetKernelMap_AffineKernel =
                      (\<lambda>(operation :: kernel_op) (km :: KernelMode).
                         (Inr (Map.empty :: nat \<rightharpoonup> (nat \<Rightarrow> nat)) :: exn + (nat \<rightharpoonup> (nat \<Rightarrow> nat)))),
                    GetKernelMap_AffineActiveListKernel =
                      (\<lambda>(operation :: kernel_op) (km :: KernelMode).
                         (Inr (Map.empty :: nat \<rightharpoonup> (nat \<Rightarrow> AffineConfigAl \<Rightarrow> nat))
                            :: exn + (nat \<rightharpoonup> (nat \<Rightarrow> AffineConfigAl \<Rightarrow> nat))))\<rparr>"
  define config where "config = \<lparr>config_input = t, config_output = t, outputBuffer = 128,
                  validator = (\<lambda>(caps :: CapabilityEntry) (tensor :: Tensor). (Inr () :: exn + unit))\<rparr>"
  define w where "w = \<lparr>ApiShape = [GNA_DIM_H \<mapsto> (8 :: u32), GNA_DIM_W \<mapsto> 8], ApiMode = mode, ApiData = 256\<rparr>"
  define b where "b = \<lparr>ApiShape = [GNA_DIM_H \<mapsto> (8 :: u32)], ApiMode = mode, ApiData = 512\<rparr>"
  define oc where "oc = \<lparr>OpBiasMode = Gna2BiasModeDefault, WeightsTensor = w, BiasesTensor = b,
              BiasVectorIndex = 0,
              WeightScalesTensor = \<lparr>ApiShape = Map.empty, ApiMode = off, ApiData = 0\<rparr>,
              KernelOperation = KERNEL_AFFINE, TransformOp = AffineTransform\<rparr>"
  have "\<exists>p. AffineFunction_Create detector config oc = Inr p"
    by (simp add: AffineFunction_Create_def createAffineSingleFunction_def oc_def Let_def
        WeightTensor_ctor_def BiasTensor_ctor_def Tensor_from_api_def Tensor_ctor_def config_def
        detector_def AffineFunctionSingle_ctor_def Shape_at_def t_def)
  then obtain p where p: "AffineFunction_Create detector config oc = Inr p" ..
  have r: "PwlOperandIndex \<notin> {InputOperandIndex, OutputOperandIndex, WeightOperandIndex,
      BiasOperandIndex, WeightScaleFactorOperandIndex}"
    by (simp add: InputOperandIndex_def OutputOperandIndex_def WeightOperandIndex_def
        BiasOperandIndex_def WeightScaleFactorOperandIndex_def PwlOperandIndex_def)
  from GetOperand_roundtrip [OF p, of PwlOperandIndex] r
  have "GetOperand p WeightOperandIndex
             = Inr \<lparr>Dimensions = [GNA_DIM_H \<mapsto> 8, GNA_DIM_W \<mapsto> 8], Mode = mode, Buffer = 256\<rparr>
         \<and> GetOperand p BiasOperandIndex
             = Inr \<lparr>Dimensions = [GNA_DIM_H \<mapsto> 8], Mode = mode, Buffer = 512\<rparr>
         \<and> GetOperand p WeightScaleFactorOperandIndex = Inl OperandNotPresent
         \<and> GetOperand p PwlOperandIndex = Inl OperandNotPresent"
    by (simp add: oc_def w_def b_def)
  with p have "\<exists>p. AffineFunction_Create detector config oc = Inr p
         \<and> GetOperand p WeightOperandIndex
             = Inr \<lparr>Dimensions = [GNA_DIM_H \<mapsto> 8, GNA_DIM_W \<mapsto> 8], Mode = mode, Buffer = 256\<rparr>
         \<and> GetOperand p BiasOperandIndex
             = Inr \<lparr>Dimensions = [GNA_DIM_H \<mapsto> 8], Mode = mode, Buffer = 512\<rparr>
         \<and> GetOperand p WeightScaleFactorOperandIndex = Inl OperandNotPresent
         \<and> GetOperand p PwlOperandIndex = Inl OperandNotPresent"
    by blast
  then show ?thesis
    unfolding Let_def detector_def config_def oc_def w_def b_def t_def mode_def off_def .
qed

subsection \<open>Pooling: output extents and limits\<close>

lemma Shape_items_W: "Shape_items [GNA_DIM_W \<mapsto> v] = [(GNA_DIM_W, v)]"
  by (simp add: Shape_items_def gna_tensor_dims_def List.map_filter_simps)

lemma set_Shape_items: "set (Shape_items s) = {(d, v). s d = Some v}"
proof -
  have all: "d \<in> set gna_tensor_dims" for d
    by (cases d) (simp_all add: gna_tensor_dims_def)
  have "set (List.map_filter (\<lambda>d. map_option (Pair d) (s d)) xs)
      = {(d, v). d \<in> set xs \<and> s d = Some v}" for xs
    by (induction xs) (auto split: option.splits)
  then show ?thesis
    by (simp add: Shape_items_def all)
qed

lemma distinct_Shape_items: "distinct (map fst (Shape_items s))"
proof -
  have d: "distinct gna_tensor_dims"
    by (simp add: gna_tensor_dims_def)
  have "map fst (List.map_filter (\<lambda>d. map_option (Pair d) (s d)) xs) = filter (\<lambda>d. s d \<noteq> None) xs" for xs
    by (induction xs) (auto simp: List.map_filter_simps split: option.splits)
  then show ?thesis
    using d by (simp add: Shape_items_def)
qed

lemma pool_extent_no_wrap:
  fixes i st :: u32
  assumes "st \<noteq> 0" and "1 \<le> (i - 1) div st + 1" and "(i - 1) div st + 1 \<le> i"
  shows "unat ((i - 1) div st + 1) = (unat i - 1) div unat st + 1"
proof -
  have i0: "i \<noteq> 0"
  proof
    assume "i = 0"
    with assms(3) have "(i - 1) div st + 1 = 0" by simp
    with assms(2) show False by simp
  qed
  then have m: "unat (i - 1) = unat i - 1"
    by (simp add: unat_minus_one)
  have d: "unat ((i - 1) div st) = (unat i - 1) div unat st"
    by (simp add: unat_div m)
  have "(i - 1) div st + 1 \<noteq> 0"
    using assms(2) by auto
  then have "unat ((i - 1) div st + 1) = Suc (unat ((i - 1) div st))"
    using unatSuc [of "(i - 1) div st"] by (simp add: add.commute)
  then show ?thesis
    by (simp add: d)
qed

lemma pool_extent_in_range:
  fixes i st :: u32
  assumes "i \<noteq> 0" and "st \<noteq> 0"
  shows "1 \<le> (i - 1) div st + 1 \<and> (i - 1) div st + 1 \<le> i"
proof -
  have m: "unat (i - 1) = unat i - 1"
    using assms(1) by (simp add: unat_minus_one)
  have pos: "0 < unat i"
    using assms(1) by (simp add: unat_gt_0)
  have d: "unat ((i - 1) div st) = (unat i - 1) div unat st"
    by (simp add: unat_div m)
  have le: "(unat i - 1) div unat st \<le> unat i - 1"
    by (rule div_le_dividend)
  have lt: "unat i < 4294967296"
    using unsigned_less [of i, where ?'a = nat] by simp
  have s: "unat ((i - 1) div st + 1) = (unat i - 1) div unat st + 1"
  proof -
    have "(unat i - 1) div unat st + 1 < 4294967296"
      using le lt pos by linarith
    then have "unat ((i - 1) div st) + unat (1 :: u32) < 2 ^ LENGTH(32)"
      by (simp add: d)
    then have "unat ((i - 1) div st + 1) = unat ((i - 1) div st) + unat (1 :: u32)"
      by (simp only: unat_add_lem [THEN iffD1])
    then show ?thesis by (simp add: d)
  qed
  have "(unat i - 1) div unat st + 1 \<le> unat i"
    using le pos by linarith
  then have "1 \<le> unat ((i - 1) div st + 1)" and "unat ((i - 1) div st + 1) \<le> unat i"
    by (simp_all add: s)
  then show ?thesis
    by (simp add: word_le_nat_alt)
qed

lemma output_dimensions_loop_Inr:
  assumes "output_dimensions_loop inputDimensions dims (od, c) = Inr (od', c')"
    and "distinct (map fst dims)"
  shows "(\<forall>(d, st) \<in> set dims. d \<noteq> GNA_DIM_D \<longrightarrow>
            (\<exists>i. inputDimensions d = Some i \<and> st \<noteq> 0
               \<and> od' d = Some ((i - 1) div st + 1)
               \<and> 1 \<le> (i - 1) div st + 1 \<and> (i - 1) div st + 1 \<le> i))
       \<and> (\<forall>d. d \<notin> fst ` set dims \<or> d = GNA_DIM_D \<longrightarrow> od' d = od d)"
  using assms
proof (induction dims arbitrary: od c)
  case Nil
  then show ?case by simp
next
  case (Cons x dims)
  obtain d st where x: "x = (d, st)" by (cases x)
  show ?case
  proof (cases "d = GNA_DIM_D")
    case True
    with Cons.prems x have "output_dimensions_loop inputDimensions dims (od, c) = Inr (od', c')"
      by simp
    from Cons.IH [OF this] Cons.prems(2) x True show ?thesis
      by auto
  next
    case False
    with Cons.prems(1) x obtain i where i: "inputDimensions d = Some i" and st: "st \<noteq> 0"
      and r: "1 \<le> (i - 1) div st + 1" "(i - 1) div st + 1 \<le> i"
      and rest: "output_dimensions_loop inputDimensions dims
                   (od(d \<mapsto> (i - 1) div st + 1), c * ((i - 1) div st + 1)) = Inr (od', c')"
      by (auto simp: bind_Inr_iff Shape_at_Inr Let_def Expect_InRange_Inr ui32_1_def
          split: if_splits)
    from Cons.prems(2) x have dn: "d \<notin> fst ` set dims" and dist: "distinct (map fst dims)"
      by auto
    from Cons.IH [OF rest dist] have
      a: "\<forall>(d, st) \<in> set dims. d \<noteq> GNA_DIM_D \<longrightarrow>
            (\<exists>i. inputDimensions d = Some i \<and> st \<noteq> 0
               \<and> od' d = Some ((i - 1) div st + 1)
               \<and> 1 \<le> (i - 1) div st + 1 \<and> (i - 1) div st + 1 \<le> i)"
      and b: "\<forall>e. e \<notin> fst ` set dims \<or> e = GNA_DIM_D \<longrightarrow>
            od' e = (od(d \<mapsto> (i - 1) div st + 1)) e"
      by blast+
    from b dn have here: "od' d = Some ((i - 1) div st + 1)"
      by simp
    show ?thesis
      using a b i st r here False x by auto
  qed
qed

lemma limits_at_stride:
  "limits_at (strideLimits b) INTEL_CONVOLUTIONAL =
     Inr [GNA_DIM_W \<mapsto> \<lparr>Min = CNN_POOL_SIZE_MIN b, Max = CNN_POOL_SIZE_MAX b, Multiplier = 1,
                        Error = Gna2StatusCnnErrorPoolStride\<rparr>]"
  by (simp add: limits_at_def strideLimits_def)

lemma limits_at_window:
  "limits_at (windowLimits b) INTEL_CONVOLUTIONAL =
     Inr [GNA_DIM_W \<mapsto> \<lparr>Min = CNN_POOL_SIZE_MIN b, Max = CNN_POOL_SIZE_MAX b, Multiplier = 1,
                        Error = Gna2StatusCnnErrorPoolSize\<rparr>]"
  by (simp add: limits_at_def windowLimits_def)

lemma ExpectShapeIsValid_W:
  "ExpectShapeIsValid [GNA_DIM_W \<mapsto> v] [GNA_DIM_W \<mapsto> \<lparr>Min = lo, Max = hi, Multiplier = 1, Error = e\<rparr>]
   = (if v < lo \<or> hi < v then Inl (GnaException e) else Inr ())"
  by (simp add: ExpectShapeIsValid_def Shape_items_W Expect_InRange_def Expect_MultiplicityOf_def)

lemma PoolingFunction_ctor_Inr:
  assumes "PoolingFunction_ctor bounds operation inputDimensions window stride mode kernelsIn = Inr pf"
  shows "\<exists>depth. output_dimensions_loop inputDimensions (Shape_items stride)
            ([GNA_DIM_D \<mapsto> depth], 1) = Inr (OutputDimensions pf, OutputsPerFilterCount pf)"
  using assms
  by (auto simp: PoolingFunction_ctor_def bind_Inr_iff)

text \<open>
  Claim C2, as amended. For every constructed pooling function and every non-depth
  dimension of its stride, the output extent is \<open>(inputExtent - 1) div stride + 1\<close> with no
  wrap-around, and lies between 1 and the input extent. For the one-dimensional shapes
  that \<open>Create\<close> builds: a pooling mode that is neither max nor sum is the pool-type
  error; for the convolutional operation and a mode of max or sum, a stride outside
  \<open>[CNN_POOL_SIZE_MIN, CNN_POOL_SIZE_MAX]\<close> is the pool-stride error, and a window outside
  it, with the stride inside, is the pool-size error: the mode is checked first, then the
  stride, then the window, and the first failure is the one raised. With mode, stride and
  window all valid, a non-zero stride and a non-zero input width, construction succeeds
  with an output width of \<open>(width - 1) div stride + 1\<close>.
\<close>

theorem PoolingFunction_ctor_extents_and_limits:
  "(PoolingFunction_ctor bounds operation inputDimensions window stride mode kernelsIn = Inr pf
      \<and> stride d = Some st \<and> d \<noteq> GNA_DIM_D \<longrightarrow>
      (\<exists>i out. inputDimensions d = Some i \<and> OutputDimensions pf d = Some out
         \<and> unat out = (unat i - 1) div unat st + 1 \<and> 1 \<le> unat out \<and> unat out \<le> unat i))
   \<and> (mode \<notin> {KernelPoolingModeMax, KernelPoolingModeSum} \<longrightarrow>
      PoolingFunction_ctor bounds operation inputDimensions
        [GNA_DIM_W \<mapsto> w] [GNA_DIM_W \<mapsto> s] mode kernelsIn
      = Inl (GnaException Gna2StatusCnnErrorPoolType))
   \<and> (mode \<in> {KernelPoolingModeMax, KernelPoolingModeSum}
        \<and> (s < CNN_POOL_SIZE_MIN bounds \<or> CNN_POOL_SIZE_MAX bounds < s) \<longrightarrow>
      PoolingFunction_ctor bounds INTEL_CONVOLUTIONAL inputDimensions
        [GNA_DIM_W \<mapsto> w] [GNA_DIM_W \<mapsto> s] mode kernelsIn
      = Inl (GnaModelErrorException Gna2StatusCnnErrorPoolStride GNA2_DISABLED
               (uint PoolingStrideParamIndex)))
   \<and> (mode \<in> {KernelPoolingModeMax, KernelPoolingModeSum}
        \<and> CNN_POOL_SIZE_MIN bounds \<le> s \<and> s \<le> CNN_POOL_SIZE_MAX bounds
        \<and> (w < CNN_POOL_SIZE_MIN bounds \<or> CNN_POOL_SIZE_MAX bounds < w) \<longrightarrow>
      PoolingFunction_ctor bounds INTEL_CONVOLUTIONAL inputDimensions
        [GNA_DIM_W \<mapsto> w] [GNA_DIM_W \<mapsto> s] mode kernelsIn
      = Inl (GnaModelErrorException Gna2StatusCnnErrorPoolSize GNA2_DISABLED
               (uint PoolingWindowParamIndex)))
   \<and> (mode \<in> {KernelPoolingModeMax, KernelPoolingModeSum}
        \<and> CNN_POOL_SIZE_MIN bounds \<le> s \<and> s \<le> CNN_POOL_SIZE_MAX bounds
        \<and> CNN_POOL_SIZE_MIN bounds \<le> w \<and> w \<le> CNN_POOL_SIZE_MAX bounds
        \<and> s \<noteq> 0 \<and> inputDimensions GNA_DIM_D = Some depth
        \<and> inputDimensions GNA_DIM_W = Some width \<and> width \<noteq> 0 \<longrightarrow>
      PoolingFunction_ctor bounds INTEL_CONVOLUTIONAL inputDimensions
        [GNA_DIM_W \<mapsto> w] [GNA_DIM_W \<mapsto> s] mode kernelsIn
      = Inr \<lparr>PoolMode = mode, Window = [GNA_DIM_W \<mapsto> w], Stride = [GNA_DIM_W \<mapsto> s],
             pool_kernels = kernelsIn,
             pool_hiddenConfig = \<lparr>PoolingConfig_Mode = mode, PoolingConfig_Size = w,
                                  PoolingConfig_Step = s\<rparr>,
             OutputsPerFilterCount = (width - 1) div s + 1,
             OutputDimensions =
               [GNA_DIM_D \<mapsto> depth, GNA_DIM_W \<mapsto> (width - 1) div s + 1]\<rparr>)"
proof (intro conjI impI)
  assume a: "PoolingFunction_ctor bounds operation inputDimensions window stride mode kernelsIn = Inr pf
      \<and> stride d = Some st \<and> d \<noteq> GNA_DIM_D"
  then obtain depth where
    "output_dimensions_loop inputDimensions (Shape_items stride)
            ([GNA_DIM_D \<mapsto> depth], 1) = Inr (OutputDimensions pf, OutputsPerFilterCount pf)"
    using PoolingFunction_ctor_Inr by blast
  from output_dimensions_loop_Inr [OF this distinct_Shape_items]
  have every: "\<forall>(d, st) \<in> set (Shape_items stride). d \<noteq> GNA_DIM_D \<longrightarrow>
            (\<exists>i. inputDimensions d = Some i \<and> st \<noteq> 0
               \<and> OutputDimensions pf d = Some ((i - 1) div st + 1)
               \<and> 1 \<le> (i - 1) div st + 1 \<and> (i - 1) div st + 1 \<le> i)"
    by (rule conjunct1)
  have "(d, st) \<in> set (Shape_items stride)"
    using a by (simp add: set_Shape_items)
  from bspec [OF every this] a
  obtain i where i: "inputDimensions d = Some i" "st \<noteq> 0"
    "OutputDimensions pf d = Some ((i - 1) div st + 1)"
    "1 \<le> (i - 1) div st + 1" "(i - 1) div st + 1 \<le> i"
    by auto
  have n: "unat ((i - 1) div st + 1) = (unat i - 1) div unat st + 1"
    using i by (intro pool_extent_no_wrap)
  have "unat ((i - 1) div st + 1) \<le> unat i"
    using i(5) by (simp add: word_le_nat_alt)
  with i n show "\<exists>i out. inputDimensions d = Some i \<and> OutputDimensions pf d = Some out
         \<and> unat out = (unat i - 1) div unat st + 1 \<and> 1 \<le> unat out \<and> unat out \<le> unat i"
    by auto
next
  assume "mode \<notin> {KernelPoolingModeMax, KernelPoolingModeSum}"
  then show "PoolingFunction_ctor bounds operation inputDimensions
        [GNA_DIM_W \<mapsto> w] [GNA_DIM_W \<mapsto> s] mode kernelsIn
      = Inl (GnaException Gna2StatusCnnErrorPoolType)"
    by (simp add: PoolingFunction_ctor_def Shape_at_def Expect_InSet_def)
next
  assume "mode \<in> {KernelPoolingModeMax, KernelPoolingModeSum}
        \<and> (s < CNN_POOL_SIZE_MIN bounds \<or> CNN_POOL_SIZE_MAX bounds < s)"
  then show "PoolingFunction_ctor bounds INTEL_CONVOLUTIONAL inputDimensions
        [GNA_DIM_W \<mapsto> w] [GNA_DIM_W \<mapsto> s] mode kernelsIn
      = Inl (GnaModelErrorException Gna2StatusCnnErrorPoolStride GNA2_DISABLED
               (uint PoolingStrideParamIndex))"
    by (auto simp: PoolingFunction_ctor_def Shape_at_def Expect_InSet_def limits_at_stride
        ExpectShapeIsValid_W ExecuteForModelItem_def)
next
  assume "mode \<in> {KernelPoolingModeMax, KernelPoolingModeSum}
        \<and> CNN_POOL_SIZE_MIN bounds \<le> s \<and> s \<le> CNN_POOL_SIZE_MAX bounds
        \<and> (w < CNN_POOL_SIZE_MIN bounds \<or> CNN_POOL_SIZE_MAX bounds < w)"
  then show "PoolingFunction_ctor bounds INTEL_CONVOLUTIONAL inputDimensions
        [GNA_DIM_W \<mapsto> w] [GNA_DIM_W \<mapsto> s] mode kernelsIn
      = Inl (GnaModelErrorException Gna2StatusCnnErrorPoolSize GNA2_DISABLED
               (uint PoolingWindowParamIndex))"
    by (auto simp: PoolingFunction_ctor_def Shape_at_def Expect_InSet_def limits_at_stride
        limits_at_window ExpectShapeIsValid_W ExecuteForModelItem_def)
next
  assume a: "mode \<in> {KernelPoolingModeMax, KernelPoolingModeSum}
        \<and> CNN_POOL_SIZE_MIN bounds \<le> s \<and> s \<le> CNN_POOL_SIZE_MAX bounds
        \<and> CNN_POOL_SIZE_MIN bounds \<le> w \<and> w \<le> CNN_POOL_SIZE_MAX bounds
        \<and> s \<noteq> 0 \<and> inputDimensions GNA_DIM_D = Some depth
        \<and> inputDimensions GNA_DIM_W = Some width \<and> width \<noteq> 0"
  then have r: "1 \<le> (width - 1) div s + 1 \<and> (width - 1) div s + 1 \<le> width"
    by (intro pool_extent_in_range) simp_all
  have nz: "(width - 1) div s + 1 \<noteq> 0"
    using r by auto
  have loop: "output_dimensions_loop inputDimensions (Shape_items [GNA_DIM_W \<mapsto> s])
      ([GNA_DIM_D \<mapsto> depth], 1)
      = Inr ([GNA_DIM_D \<mapsto> depth, GNA_DIM_W \<mapsto> (width - 1) div s + 1], (width - 1) div s + 1)"
    using a r nz by (simp add: Shape_items_W Shape_at_def Expect_InRange_def ui32_1_def Let_def
        not_less)
  have checks: "\<not> s < CNN_POOL_SIZE_MIN bounds" "\<not> CNN_POOL_SIZE_MAX bounds < s"
    "\<not> w < CNN_POOL_SIZE_MIN bounds" "\<not> CNN_POOL_SIZE_MAX bounds < w"
    using a by (simp_all add: not_less)
  show "PoolingFunction_ctor bounds INTEL_CONVOLUTIONAL inputDimensions
        [GNA_DIM_W \<mapsto> w] [GNA_DIM_W \<mapsto> s] mode kernelsIn
      = Inr \<lparr>PoolMode = mode, Window = [GNA_DIM_W \<mapsto> w], Stride = [GNA_DIM_W \<mapsto> s],
             pool_kernels = kernelsIn,
             pool_hiddenConfig = \<lparr>PoolingConfig_Mode = mode, PoolingConfig_Size = w,
                                  PoolingConfig_Step = s\<rparr>,
             OutputsPerFilterCount = (width - 1) div s + 1,
             OutputDimensions =
               [GNA_DIM_D \<mapsto> depth, GNA_DIM_W \<mapsto> (width - 1) div s + 1]\<rparr>"
    using a checks
    by (auto simp: PoolingFunction_ctor_def Shape_at_def Expect_InSet_def limits_at_stride
        limits_at_window ExpectShapeIsValid_W ExecuteForModelItem_def loop)
qed

text \<open>
  With bounds 1 and 6 and an input width of 10: window 2 and stride 3 give an output width
  of 4; a mode of none is the pool-type error; stride 7 is the pool-stride error; window 7
  with stride 3 is the pool-size error.
\<close>

theorem PoolingFunction_ctor_extents_and_limits_witness:
  "(let bounds = \<lparr>CNN_POOL_SIZE_MIN = 1, CNN_POOL_SIZE_MAX = 6\<rparr>;
        dims = [GNA_DIM_D \<mapsto> 4, GNA_DIM_W \<mapsto> 10];
        k = (Map.empty :: nat \<rightharpoonup> nat)
    in PoolingFunction_ctor bounds INTEL_CONVOLUTIONAL dims [GNA_DIM_W \<mapsto> 2] [GNA_DIM_W \<mapsto> 3]
         KernelPoolingModeMax k
       = Inr \<lparr>PoolMode = KernelPoolingModeMax, Window = [GNA_DIM_W \<mapsto> 2],
              Stride = [GNA_DIM_W \<mapsto> 3], pool_kernels = k,
              pool_hiddenConfig = \<lparr>PoolingConfig_Mode = KernelPoolingModeMax,
                                   PoolingConfig_Size = 2, PoolingConfig_Step = 3\<rparr>,
              OutputsPerFilterCount = 4,
              OutputDimensions = [GNA_DIM_D \<mapsto> 4, GNA_DIM_W \<mapsto> 4]\<rparr>
     \<and> (\<exists>pf out.
           PoolingFunction_ctor bounds INTEL_CONVOLUTIONAL dims [GNA_DIM_W \<mapsto> 2]
             [GNA_DIM_W \<mapsto> 3] KernelPoolingModeMax k = Inr pf
           \<and> OutputDimensions pf GNA_DIM_W = Some out
           \<and> unat out = (10 - 1) div 3 + 1 \<and> 1 \<le> unat out \<and> unat out \<le> 10)
     \<and> PoolingFunction_ctor bounds INTEL_CONVOLUTIONAL dims [GNA_DIM_W \<mapsto> 2] [GNA_DIM_W \<mapsto> 3]
         KernelPoolingModeNone k
       = Inl (GnaException Gna2StatusCnnErrorPoolType)
     \<and> PoolingFunction_ctor bounds INTEL_CONVOLUTIONAL dims [GNA_DIM_W \<mapsto> 2] [GNA_DIM_W \<mapsto> 7]
         KernelPoolingModeMax k
       = Inl (GnaModelErrorException Gna2StatusCnnErrorPoolStride GNA2_DISABLED
                (uint PoolingStrideParamIndex))
     \<and> PoolingFunction_ctor bounds INTEL_CONVOLUTIONAL dims [GNA_DIM_W \<mapsto> 7] [GNA_DIM_W \<mapsto> 3]
         KernelPoolingModeMax k
       = Inl (GnaModelErrorException Gna2StatusCnnErrorPoolSize GNA2_DISABLED
                (uint PoolingWindowParamIndex)))"
proof -
  define bounds where "bounds = \<lparr>CNN_POOL_SIZE_MIN = 1, CNN_POOL_SIZE_MAX = 6\<rparr>"
  define dims where "dims = [GNA_DIM_D \<mapsto> (4 :: u32), GNA_DIM_W \<mapsto> 10]"
  define k where "k = (Map.empty :: nat \<rightharpoonup> nat)"
  define pf where "pf = \<lparr>PoolMode = KernelPoolingModeMax, Window = [GNA_DIM_W \<mapsto> (2 :: u32)],
              Stride = [GNA_DIM_W \<mapsto> (3 :: u32)], pool_kernels = k,
              pool_hiddenConfig = \<lparr>PoolingConfig_Mode = KernelPoolingModeMax,
                                   PoolingConfig_Size = 2, PoolingConfig_Step = 3\<rparr>,
              OutputsPerFilterCount = 4,
              OutputDimensions = [GNA_DIM_D \<mapsto> (4 :: u32), GNA_DIM_W \<mapsto> 4]\<rparr>"
  note good = PoolingFunction_ctor_extents_and_limits
    [where bounds = bounds and operation = INTEL_CONVOLUTIONAL and inputDimensions = dims
       and window = "[GNA_DIM_W \<mapsto> 2]" and stride = "[GNA_DIM_W \<mapsto> 3]"
       and mode = KernelPoolingModeMax and kernelsIn = k and pf = pf and d = GNA_DIM_W
       and st = 3 and w = 2 and s = 3 and depth = 4 and width = 10]
  note badmode = PoolingFunction_ctor_extents_and_limits
    [where bounds = bounds and operation = INTEL_CONVOLUTIONAL and inputDimensions = dims
       and mode = KernelPoolingModeNone and kernelsIn = k and w = 2 and s = 3]
  note badstride = PoolingFunction_ctor_extents_and_limits
    [where bounds = bounds and inputDimensions = dims
       and mode = KernelPoolingModeMax and kernelsIn = k and w = 2 and s = 7]
  note badwindow = PoolingFunction_ctor_extents_and_limits
    [where bounds = bounds and inputDimensions = dims
       and mode = KernelPoolingModeMax and kernelsIn = k and w = 7 and s = 3]
  have h5: "KernelPoolingModeMax \<in> {KernelPoolingModeMax, KernelPoolingModeSum}
        \<and> CNN_POOL_SIZE_MIN bounds \<le> 3 \<and> 3 \<le> CNN_POOL_SIZE_MAX bounds
        \<and> CNN_POOL_SIZE_MIN bounds \<le> 2 \<and> 2 \<le> CNN_POOL_SIZE_MAX bounds
        \<and> (3 :: u32) \<noteq> 0 \<and> dims GNA_DIM_D = Some 4
        \<and> dims GNA_DIM_W = Some 10 \<and> (10 :: u32) \<noteq> 0"
    by (simp add: bounds_def dims_def)
  note c5 = mp [OF conjunct2 [OF conjunct2 [OF conjunct2 [OF conjunct2 [OF good]]]] h5]
  have built: "PoolingFunction_ctor bounds INTEL_CONVOLUTIONAL dims [GNA_DIM_W \<mapsto> 2]
      [GNA_DIM_W \<mapsto> 3] KernelPoolingModeMax k = Inr pf"
    unfolding c5 pf_def by simp
  have h1: "PoolingFunction_ctor bounds INTEL_CONVOLUTIONAL dims [GNA_DIM_W \<mapsto> 2]
        [GNA_DIM_W \<mapsto> 3] KernelPoolingModeMax k = Inr pf
      \<and> [GNA_DIM_W \<mapsto> (3 :: u32)] GNA_DIM_W = Some 3 \<and> GNA_DIM_W \<noteq> GNA_DIM_D"
    using built by simp
  note c1 = mp [OF conjunct1 [OF good] h1]
  have h2: "KernelPoolingModeNone \<notin> {KernelPoolingModeMax, KernelPoolingModeSum}"
    by simp
  note c2 = mp [OF conjunct1 [OF conjunct2 [OF badmode]] h2]
  have h3: "KernelPoolingModeMax \<in> {KernelPoolingModeMax, KernelPoolingModeSum}
      \<and> ((7 :: u32) < CNN_POOL_SIZE_MIN bounds \<or> CNN_POOL_SIZE_MAX bounds < 7)"
    by (simp add: bounds_def)
  note c3 = mp [OF conjunct1 [OF conjunct2 [OF conjunct2 [OF badstride]]] h3]
  have h4: "KernelPoolingModeMax \<in> {KernelPoolingModeMax, KernelPoolingModeSum}
      \<and> CNN_POOL_SIZE_MIN bounds \<le> (3 :: u32) \<and> (3 :: u32) \<le> CNN_POOL_SIZE_MAX bounds
      \<and> ((7 :: u32) < CNN_POOL_SIZE_MIN bounds \<or> CNN_POOL_SIZE_MAX bounds < 7)"
    by (simp add: bounds_def)
  note c4 = mp [OF conjunct1 [OF conjunct2 [OF conjunct2 [OF conjunct2 [OF badwindow]]]] h4]
  from c1 built have e: "\<exists>pf out.
           PoolingFunction_ctor bounds INTEL_CONVOLUTIONAL dims [GNA_DIM_W \<mapsto> 2]
             [GNA_DIM_W \<mapsto> 3] KernelPoolingModeMax k = Inr pf
           \<and> OutputDimensions pf GNA_DIM_W = Some out
           \<and> unat out = (10 - 1) div 3 + 1 \<and> 1 \<le> unat out \<and> unat out \<le> 10"
    by (auto simp: dims_def)
  from built e c2 c3 c4 show ?thesis
    unfolding Let_def bounds_def dims_def k_def pf_def by simp
qed

text \<open>
  Claim C2 as stated fails: with bounds 1 and 6, a window of 7 is outside the range, yet
  with a stride of 7 construction fails with the pool-stride error, and with a pooling
  mode that is neither max nor sum it fails with the pool-type error; neither is the
  pool-size error.
\<close>

theorem PoolingFunction_ctor_first_failure_wins:
  "PoolingFunction_ctor \<lparr>CNN_POOL_SIZE_MIN = 1, CNN_POOL_SIZE_MAX = 6\<rparr> INTEL_CONVOLUTIONAL
        [GNA_DIM_D \<mapsto> 4, GNA_DIM_W \<mapsto> 10] [GNA_DIM_W \<mapsto> 7] [GNA_DIM_W \<mapsto> 7]
        KernelPoolingModeMax (Map.empty :: nat \<rightharpoonup> nat)
      = Inl (GnaModelErrorException Gna2StatusCnnErrorPoolStride GNA2_DISABLED
               (uint PoolingStrideParamIndex))
   \<and> PoolingFunction_ctor \<lparr>CNN_POOL_SIZE_MIN = 1, CNN_POOL_SIZE_MAX = 6\<rparr> INTEL_CONVOLUTIONAL
        [GNA_DIM_D \<mapsto> 4, GNA_DIM_W \<mapsto> 10] [GNA_DIM_W \<mapsto> 7] [GNA_DIM_W \<mapsto> 3]
        KernelPoolingModeNone (Map.empty :: nat \<rightharpoonup> nat)
      = Inl (GnaException Gna2StatusCnnErrorPoolType)"
  by (simp add: PoolingFunction_ctor_def Shape_at_def Expect_InSet_def limits_at_stride
        limits_at_window ExpectShapeIsValid_W ExecuteForModelItem_def)

subsection \<open>Pooling: creation\<close>

lemma ExpectValid_eq:
  "ExpectValid apiOperation =
     (if HasParameter apiOperation PoolingWindowParamIndex
         \<or> HasParameter apiOperation PoolingStrideParamIndex
      then (if HasParameter apiOperation PoolingModeParamIndex
              \<and> HasParameter apiOperation PoolingWindowParamIndex
              \<and> HasParameter apiOperation PoolingStrideParamIndex
            then Inr () else Inl (GnaException Gna2StatusModelConfigurationInvalid))
      else Inr ())"
  by (simp add: ExpectValid_def ExpectParameterAvailable_def Let_def)

lemma PoolingFunction_Create_null:
  "PoolingFunction_Create bounds env apiOperation inputDimensions validatorIn inputMode = Inr None
   \<longleftrightarrow> ValidatorOperation validatorIn = INTEL_CONVOLUTIONAL
       \<and> ExpectValid apiOperation = Inr ()
       \<and> GetOptionalParameter_PoolingMode apiOperation PoolingModeParamIndex
            Gna2PoolingModeDisabled = Gna2PoolingModeDisabled"
  by (cases "GetOptionalParameter_PoolingMode apiOperation PoolingModeParamIndex
            Gna2PoolingModeDisabled")
    (auto simp: PoolingFunction_Create_def bind_Inr_iff Expect_Equal_Inr Let_def
      ExecuteForModelItem_Inr ModelErrorHelper_ExpectInSet_def Expect_InSet_def)

lemma PoolingFunction_Create_legacy_null:
  "PoolingFunction_Create_legacy bounds env layerDetails inputDimensions validatorIn inputMode
     = Inr None
   \<longleftrightarrow> ValidatorOperation validatorIn = INTEL_CONVOLUTIONAL
       \<and> poolType layerDetails = INTEL_NO_POOLING"
  by (auto simp: PoolingFunction_Create_legacy_def Let_def bind_Inr_iff split: nn_operation.splits)

text \<open>
  Claim C3, as amended. For the convolutional operation, \<open>Create\<close> on the structured path
  returns the null pointer exactly when the descriptor passes \<open>ExpectValid\<close> and its pooling
  mode, "disabled" when absent, is "disabled"; on the legacy path exactly when the pool
  type is "no pooling". In particular a descriptor with pooling mode "disabled" or absent
  and neither window nor stride yields the null pointer and no error. In every other case
  the result is a constructed object or an error; for any operation but the convolutional
  one \<open>Create\<close> raises \<open>Gna2StatusXnnErrorLyrOperation\<close> on both paths.
\<close>

theorem PoolingFunction_Create_disabled_is_null:
  "(PoolingFunction_Create bounds env apiOperation inputDimensions validatorIn inputMode = Inr None
     \<longleftrightarrow> ValidatorOperation validatorIn = INTEL_CONVOLUTIONAL
         \<and> ExpectValid apiOperation = Inr ()
         \<and> GetOptionalParameter_PoolingMode apiOperation PoolingModeParamIndex
              Gna2PoolingModeDisabled = Gna2PoolingModeDisabled)
   \<and> (PoolingFunction_Create_legacy bounds env layerDetails inputDimensions validatorIn inputMode
         = Inr None
     \<longleftrightarrow> ValidatorOperation validatorIn = INTEL_CONVOLUTIONAL
         \<and> poolType layerDetails = INTEL_NO_POOLING)
   \<and> (ValidatorOperation validatorIn = INTEL_CONVOLUTIONAL
        \<and> PoolingModeParameter apiOperation \<in> {None, Some Gna2PoolingModeDisabled}
        \<and> PoolingWindowParameter apiOperation = None
        \<and> PoolingStrideParameter apiOperation = None \<longrightarrow>
      PoolingFunction_Create bounds env apiOperation inputDimensions validatorIn inputMode
        = Inr None)
   \<and> (ValidatorOperation validatorIn \<noteq> INTEL_CONVOLUTIONAL \<longrightarrow>
      PoolingFunction_Create bounds env apiOperation inputDimensions validatorIn inputMode
        = Inl (GnaException Gna2StatusXnnErrorLyrOperation)
      \<and> PoolingFunction_Create_legacy bounds env layerDetails inputDimensions validatorIn
          inputMode
        = Inl (GnaException Gna2StatusXnnErrorLyrOperation))"
proof (intro conjI impI)
  assume a: "ValidatorOperation validatorIn = INTEL_CONVOLUTIONAL
        \<and> PoolingModeParameter apiOperation \<in> {None, Some Gna2PoolingModeDisabled}
        \<and> PoolingWindowParameter apiOperation = None
        \<and> PoolingStrideParameter apiOperation = None"
  then have "ExpectValid apiOperation = Inr ()"
    by (simp add: ExpectValid_eq HasParameter_def PoolingModeParamIndex_def
        PoolingWindowParamIndex_def PoolingStrideParamIndex_def)
  moreover from a have "GetOptionalParameter_PoolingMode apiOperation PoolingModeParamIndex
              Gna2PoolingModeDisabled = Gna2PoolingModeDisabled"
    by (auto simp: GetOptionalParameter_PoolingMode_def)
  ultimately show "PoolingFunction_Create bounds env apiOperation inputDimensions validatorIn
      inputMode = Inr None"
    using a by (simp add: PoolingFunction_Create_null)
next
  assume "ValidatorOperation validatorIn \<noteq> INTEL_CONVOLUTIONAL"
  then show "PoolingFunction_Create bounds env apiOperation inputDimensions validatorIn inputMode
        = Inl (GnaException Gna2StatusXnnErrorLyrOperation)"
    by (auto simp: PoolingFunction_Create_def Expect_Equal_def)
next
  assume "ValidatorOperation validatorIn \<noteq> INTEL_CONVOLUTIONAL"
  then show "PoolingFunction_Create_legacy bounds env layerDetails inputDimensions validatorIn
          inputMode
        = Inl (GnaException Gna2StatusXnnErrorLyrOperation)"
    by (simp add: PoolingFunction_Create_legacy_def split: nn_operation.splits)
qed (rule PoolingFunction_Create_null PoolingFunction_Create_legacy_null)+

text \<open>
  A convolutional layer whose descriptor says "disabled", one that says nothing about
  pooling, and a legacy layer with no pooling: all give the null pointer. The same requests
  for a copy operation raise the operation error.
\<close>

theorem PoolingFunction_Create_disabled_is_null_witness:
  "(let bounds = \<lparr>CNN_POOL_SIZE_MIN = 1, CNN_POOL_SIZE_MAX = 6\<rparr>;
        env = \<lparr>GetKernelMap_Pooling = (\<lambda>operation (m :: nat). Inr (Map.empty :: nat \<rightharpoonup> nat)),
               PoolingMode_of_legacy = (\<lambda>t. Inr KernelPoolingModeMax),
               PoolingMode_of_api = (\<lambda>m. Inr KernelPoolingModeMax)\<rparr>;
        conv = \<lparr>ValidatorOperation = INTEL_CONVOLUTIONAL\<rparr>;
        copy = \<lparr>ValidatorOperation = INTEL_COPY\<rparr>;
        dims = [GNA_DIM_D \<mapsto> 4, GNA_DIM_W \<mapsto> 10];
        cnn = \<lparr>poolType = INTEL_NO_POOLING, nPoolSize = 0, nPoolStride = 0\<rparr>;
        disabled = \<lparr>PoolingModeParameter = Some Gna2PoolingModeDisabled,
                    PoolingWindowParameter = None, PoolingStrideParameter = None\<rparr>;
        absent = \<lparr>PoolingModeParameter = None, PoolingWindowParameter = None,
                  PoolingStrideParameter = None\<rparr>
    in PoolingFunction_Create bounds env disabled dims conv 2 = Inr None
     \<and> PoolingFunction_Create bounds env absent dims conv 2 = Inr None
     \<and> PoolingFunction_Create_legacy bounds env cnn dims conv 2 = Inr None
     \<and> PoolingFunction_Create bounds env absent dims copy 2
         = Inl (GnaException Gna2StatusXnnErrorLyrOperation)
     \<and> PoolingFunction_Create_legacy bounds env cnn dims copy 2
         = Inl (GnaException Gna2StatusXnnErrorLyrOperation))"
proof -
  define bounds where "bounds = \<lparr>CNN_POOL_SIZE_MIN = 1, CNN_POOL_SIZE_MAX = 6\<rparr>"
  define env where "env = \<lparr>GetKernelMap_Pooling =
                 (\<lambda>(operation :: kernel_op) (m :: nat). (Inr (Map.empty :: nat \<rightharpoonup> nat) :: exn + (nat \<rightharpoonup> nat))),
               PoolingMode_of_legacy = (\<lambda>t :: nn_pool_type. (Inr KernelPoolingModeMax :: exn + KernelPoolingMode)),
               PoolingMode_of_api = (\<lambda>m :: Gna2PoolingMode. (Inr KernelPoolingModeMax :: exn + KernelPoolingMode))\<rparr>"
  define conv where "conv = \<lparr>ValidatorOperation = INTEL_CONVOLUTIONAL\<rparr>"
  define copy where "copy = \<lparr>ValidatorOperation = INTEL_COPY\<rparr>"
  define dims where "dims = [GNA_DIM_D \<mapsto> (4 :: u32), GNA_DIM_W \<mapsto> 10]"
  define cnn where "cnn = \<lparr>poolType = INTEL_NO_POOLING, nPoolSize = 0, nPoolStride = 0\<rparr>"
  define disabled where "disabled = \<lparr>PoolingModeParameter = Some Gna2PoolingModeDisabled,
      PoolingWindowParameter = None, PoolingStrideParameter = None\<rparr>"
  define absent where "absent = \<lparr>PoolingModeParameter = None,
      PoolingWindowParameter = None, PoolingStrideParameter = None\<rparr>"
  have ha: "ValidatorOperation conv = INTEL_CONVOLUTIONAL
        \<and> PoolingModeParameter disabled \<in> {None, Some Gna2PoolingModeDisabled}
        \<and> PoolingWindowParameter disabled = None
        \<and> PoolingStrideParameter disabled = None"
    by (simp add: conv_def disabled_def)
  have hb: "ValidatorOperation conv = INTEL_CONVOLUTIONAL
        \<and> PoolingModeParameter absent \<in> {None, Some Gna2PoolingModeDisabled}
        \<and> PoolingWindowParameter absent = None
        \<and> PoolingStrideParameter absent = None"
    by (simp add: conv_def absent_def)
  have hc: "ValidatorOperation copy \<noteq> INTEL_CONVOLUTIONAL"
    by (simp add: copy_def)
  note ta = PoolingFunction_Create_disabled_is_null [of bounds env disabled dims conv 2 cnn]
  note tb = PoolingFunction_Create_disabled_is_null [of bounds env absent dims conv 2 cnn]
  note tc = PoolingFunction_Create_disabled_is_null [of bounds env absent dims copy 2 cnn]
  note ca = mp [OF conjunct1 [OF conjunct2 [OF conjunct2 [OF ta]]] ha]
  note cb = mp [OF conjunct1 [OF conjunct2 [OF conjunct2 [OF tb]]] hb]
  note cc = mp [OF conjunct2 [OF conjunct2 [OF conjunct2 [OF tc]]] hc]
  have cl: "PoolingFunction_Create_legacy bounds env cnn dims conv 2 = Inr None"
    unfolding conjunct1 [OF conjunct2 [OF ta]] by (simp add: conv_def cnn_def)
  from ca cb cc cl show ?thesis
    unfolding Let_def bounds_def env_def conv_def copy_def dims_def cnn_def disabled_def
      absent_def
    by simp
qed

text \<open>
  Claim C3 as stated fails: for an affine operation, a request with pooling mode "disabled"
  and neither window nor stride raises \<open>Gna2StatusXnnErrorLyrOperation\<close>.
\<close>

theorem PoolingFunction_Create_other_operation_throws:
  "PoolingFunction_Create \<lparr>CNN_POOL_SIZE_MIN = 1, CNN_POOL_SIZE_MAX = 6\<rparr>
     \<lparr>GetKernelMap_Pooling = (\<lambda>operation (m :: nat). Inr (Map.empty :: nat \<rightharpoonup> nat)),
      PoolingMode_of_legacy = (\<lambda>t. Inr KernelPoolingModeMax),
      PoolingMode_of_api = (\<lambda>m. Inr KernelPoolingModeMax)\<rparr>
     \<lparr>PoolingModeParameter = Some Gna2PoolingModeDisabled, PoolingWindowParameter = None,
      PoolingStrideParameter = None\<rparr>
     [GNA_DIM_D \<mapsto> 4, GNA_DIM_W \<mapsto> 10] \<lparr>ValidatorOperation = INTEL_AFFINE\<rparr> 2
   = Inl (GnaException Gna2StatusXnnErrorLyrOperation)"
  by (simp add: PoolingFunction_Create_def Expect_Equal_def)

text \<open>
  Claim C10. \<open>ExpectValid\<close> imposes a requirement exactly when the descriptor has the
  pooling window or the pooling stride: then pooling mode, window and stride must all be
  available, and a missing one is a model-configuration error, which \<open>Create\<close> raises for
  the convolutional operation. With neither window nor stride nothing is required, a
  missing pooling mode reads as "disabled", and \<open>Create\<close> returns the null pointer.
\<close>

theorem ExpectValid_all_three_or_none:
  "ExpectValid apiOperation =
     (if HasParameter apiOperation PoolingWindowParamIndex
         \<or> HasParameter apiOperation PoolingStrideParamIndex
      then (if HasParameter apiOperation PoolingModeParamIndex
              \<and> HasParameter apiOperation PoolingWindowParamIndex
              \<and> HasParameter apiOperation PoolingStrideParamIndex
            then Inr () else Inl (GnaException Gna2StatusModelConfigurationInvalid))
      else Inr ())
   \<and> (ValidatorOperation validatorIn = INTEL_CONVOLUTIONAL \<and> ExpectValid apiOperation = Inl e
        \<longrightarrow> PoolingFunction_Create bounds env apiOperation inputDimensions validatorIn inputMode
              = Inl e)
   \<and> (\<not> HasParameter apiOperation PoolingModeParamIndex \<longrightarrow>
        GetOptionalParameter_PoolingMode apiOperation PoolingModeParamIndex
          Gna2PoolingModeDisabled = Gna2PoolingModeDisabled)
   \<and> (ValidatorOperation validatorIn = INTEL_CONVOLUTIONAL
        \<and> \<not> HasParameter apiOperation PoolingWindowParamIndex
        \<and> \<not> HasParameter apiOperation PoolingStrideParamIndex
        \<and> \<not> HasParameter apiOperation PoolingModeParamIndex \<longrightarrow>
        PoolingFunction_Create bounds env apiOperation inputDimensions validatorIn inputMode
          = Inr None)"
proof (intro conjI impI)
  show "ExpectValid apiOperation =
     (if HasParameter apiOperation PoolingWindowParamIndex
         \<or> HasParameter apiOperation PoolingStrideParamIndex
      then (if HasParameter apiOperation PoolingModeParamIndex
              \<and> HasParameter apiOperation PoolingWindowParamIndex
              \<and> HasParameter apiOperation PoolingStrideParamIndex
            then Inr () else Inl (GnaException Gna2StatusModelConfigurationInvalid))
      else Inr ())"
    by (rule ExpectValid_eq)
next
  assume "ValidatorOperation validatorIn = INTEL_CONVOLUTIONAL \<and> ExpectValid apiOperation = Inl e"
  then show "PoolingFunction_Create bounds env apiOperation inputDimensions validatorIn inputMode
              = Inl e"
    by (simp add: PoolingFunction_Create_def Expect_Equal_def)
next
  assume "\<not> HasParameter apiOperation PoolingModeParamIndex"
  then show "GetOptionalParameter_PoolingMode apiOperation PoolingModeParamIndex
          Gna2PoolingModeDisabled = Gna2PoolingModeDisabled"
    by (simp add: GetOptionalParameter_PoolingMode_def HasParameter_def)
next
  assume a: "ValidatorOperation validatorIn = INTEL_CONVOLUTIONAL
        \<and> \<not> HasParameter apiOperation PoolingWindowParamIndex
        \<and> \<not> HasParameter apiOperation PoolingStrideParamIndex
        \<and> \<not> HasParameter apiOperation PoolingModeParamIndex"
  then have "GetOptionalParameter_PoolingMode apiOperation PoolingModeParamIndex
          Gna2PoolingModeDisabled = Gna2PoolingModeDisabled"
    by (simp add: GetOptionalParameter_PoolingMode_def HasParameter_def)
  with a show "PoolingFunction_Create bounds env apiOperation inputDimensions validatorIn inputMode
          = Inr None"
    by (simp add: PoolingFunction_Create_null ExpectValid_eq)
qed

text \<open>
  A descriptor with window and stride but no pooling mode is a model-configuration error;
  a descriptor with none of the three gives "disabled" and the null pointer.
\<close>

theorem ExpectValid_all_three_or_none_witness:
  "ExpectValid \<lparr>PoolingModeParameter = None, PoolingWindowParameter = Some [2],
       PoolingStrideParameter = Some [2]\<rparr>
     = Inl (GnaException Gna2StatusModelConfigurationInvalid)
   \<and> PoolingFunction_Create \<lparr>CNN_POOL_SIZE_MIN = 1, CNN_POOL_SIZE_MAX = 6\<rparr>
       \<lparr>GetKernelMap_Pooling = (\<lambda>operation (m :: nat). Inr (Map.empty :: nat \<rightharpoonup> nat)),
        PoolingMode_of_legacy = (\<lambda>t. Inr KernelPoolingModeMax),
        PoolingMode_of_api = (\<lambda>m. Inr KernelPoolingModeMax)\<rparr>
       \<lparr>PoolingModeParameter = None, PoolingWindowParameter = Some [2],
        PoolingStrideParameter = Some [2]\<rparr>
       [GNA_DIM_D \<mapsto> 4, GNA_DIM_W \<mapsto> 10] \<lparr>ValidatorOperation = INTEL_CONVOLUTIONAL\<rparr> 2
     = Inl (GnaException Gna2StatusModelConfigurationInvalid)
   \<and> GetOptionalParameter_PoolingMode
       \<lparr>PoolingModeParameter = None, PoolingWindowParameter = None,
        PoolingStrideParameter = None\<rparr> PoolingModeParamIndex Gna2PoolingModeDisabled
     = Gna2PoolingModeDisabled
   \<and> PoolingFunction_Create \<lparr>CNN_POOL_SIZE_MIN = 1, CNN_POOL_SIZE_MAX = 6\<rparr>
       \<lparr>GetKernelMap_Pooling = (\<lambda>operation (m :: nat). Inr (Map.empty :: nat \<rightharpoonup> nat)),
        PoolingMode_of_legacy = (\<lambda>t. Inr KernelPoolingModeMax),
        PoolingMode_of_api = (\<lambda>m. Inr KernelPoolingModeMax)\<rparr>
       \<lparr>PoolingModeParameter = None, PoolingWindowParameter = None,
        PoolingStrideParameter = None\<rparr>
       [GNA_DIM_D \<mapsto> 4, GNA_DIM_W \<mapsto> 10] \<lparr>ValidatorOperation = INTEL_CONVOLUTIONAL\<rparr> 2
     = Inr None"
proof -
  define bounds where "bounds = \<lparr>CNN_POOL_SIZE_MIN = 1, CNN_POOL_SIZE_MAX = 6\<rparr>"
  define env where "env = \<lparr>GetKernelMap_Pooling =
                 (\<lambda>(operation :: kernel_op) (m :: nat). (Inr (Map.empty :: nat \<rightharpoonup> nat) :: exn + (nat \<rightharpoonup> nat))),
               PoolingMode_of_legacy = (\<lambda>t :: nn_pool_type. (Inr KernelPoolingModeMax :: exn + KernelPoolingMode)),
               PoolingMode_of_api = (\<lambda>m :: Gna2PoolingMode. (Inr KernelPoolingModeMax :: exn + KernelPoolingMode))\<rparr>"
  define conv where "conv = \<lparr>ValidatorOperation = INTEL_CONVOLUTIONAL\<rparr>"
  define dims where "dims = [GNA_DIM_D \<mapsto> (4 :: u32), GNA_DIM_W \<mapsto> 10]"
  define a where "a = \<lparr>PoolingModeParameter = None,
      PoolingWindowParameter = Some [2 :: u32], PoolingStrideParameter = Some [2 :: u32]\<rparr>"
  define b where "b = \<lparr>PoolingModeParameter = None,
      PoolingWindowParameter = None, PoolingStrideParameter = None\<rparr>"
  note ta = ExpectValid_all_three_or_none
    [of a conv "GnaException Gna2StatusModelConfigurationInvalid" bounds env dims 2]
  note tb = ExpectValid_all_three_or_none
    [of b conv "GnaException Gna2StatusModelConfigurationInvalid" bounds env dims 2]
  have a1: "ExpectValid a = Inl (GnaException Gna2StatusModelConfigurationInvalid)"
    unfolding conjunct1 [OF ta]
    by (simp add: a_def HasParameter_def PoolingModeParamIndex_def PoolingWindowParamIndex_def
        PoolingStrideParamIndex_def)
  have a2: "ValidatorOperation conv = INTEL_CONVOLUTIONAL
      \<and> ExpectValid a = Inl (GnaException Gna2StatusModelConfigurationInvalid)"
    using a1 by (simp add: conv_def)
  have b1: "\<not> HasParameter b PoolingModeParamIndex"
    by (simp add: b_def HasParameter_def)
  have b2: "ValidatorOperation conv = INTEL_CONVOLUTIONAL
        \<and> \<not> HasParameter b PoolingWindowParamIndex
        \<and> \<not> HasParameter b PoolingStrideParamIndex
        \<and> \<not> HasParameter b PoolingModeParamIndex"
    by (simp add: b_def conv_def HasParameter_def PoolingModeParamIndex_def
        PoolingWindowParamIndex_def PoolingStrideParamIndex_def)
  note c2 = mp [OF conjunct1 [OF conjunct2 [OF ta]] a2]
  note c3 = mp [OF conjunct1 [OF conjunct2 [OF conjunct2 [OF tb]]] b1]
  note c4 = mp [OF conjunct2 [OF conjunct2 [OF conjunct2 [OF tb]]] b2]
  from a1 c2 c3 c4 show ?thesis
    unfolding bounds_def env_def conv_def dims_def a_def b_def by simp
qed

subsection \<open>Driver interface: memory mapping\<close>

lemma wait_for_map_result:
  "\<exists>j. wait_for_map n ms visible i slept = (j, slept + int (j - i) * ms)
       \<and> i \<le> j \<and> (\<forall>k. i \<le> k \<and> k < j \<longrightarrow> \<not> visible k \<and> int k < n)
       \<and> (visible j \<or> \<not> int j < n)"
proof (induction n ms visible i slept rule: wait_for_map.induct)
  case (1 n ms visible i slept)
  show ?case
  proof (cases "\<not> visible i \<and> int i < n")
    case True
    from "1.IH" [OF True] obtain j where
      j: "wait_for_map n ms visible (Suc i) (slept + ms) = (j, slept + ms + int (j - Suc i) * ms)"
        "Suc i \<le> j" "\<forall>k. Suc i \<le> k \<and> k < j \<longrightarrow> \<not> visible k \<and> int k < n"
        "visible j \<or> \<not> int j < n"
      by blast
    have e: "slept + ms + int (j - Suc i) * ms = slept + int (j - i) * ms"
      using j(2) by (simp add: Suc_diff_Suc algebra_simps of_nat_diff)
    have "\<forall>k. i \<le> k \<and> k < j \<longrightarrow> \<not> visible k \<and> int k < n"
      using True j(3) by (metis Suc_leI le_neq_implies_less)
    with j e True show ?thesis
      by (subst wait_for_map.simps) auto
  next
    case False
    then show ?thesis
      by (subst wait_for_map.simps) auto
  qed
qed

text \<open>
  Claim C6. The wait of \<open>MemoryMap\<close> makes at most \<open>WAIT_FOR_MAP_ITERATIONS\<close> iterations
  and sleeps \<open>WAIT_FOR_MAP_MILLISECONDS\<close> in each. \<open>MemoryMap\<close> succeeds, entering the
  buffer in the table, exactly when the buffer becomes visible within the bound, and
  raises "memory not mapped" otherwise. The loop is a total function: it always
  terminates.
\<close>

theorem MemoryMap_bounded_retry:
  "MemoryMap n ms visible memoryId request drv =
     (if \<exists>k. k \<le> nat n \<and> visible k
      then Inr (memoryId, drv\<lparr>memoryMapRequests := (memoryMapRequests drv)(memoryId \<mapsto> request)\<rparr>)
      else Inl MemoryNotMapped)
   \<and> fst (wait_for_map n ms visible 0 0) \<le> nat n
   \<and> snd (wait_for_map n ms visible 0 0) = int (fst (wait_for_map n ms visible 0 0)) * ms"
proof -
  from wait_for_map_result [of n ms visible 0 0] obtain j where
    j: "wait_for_map n ms visible 0 0 = (j, int j * ms)"
      "\<forall>k. k < j \<longrightarrow> \<not> visible k \<and> int k < n"
      "visible j \<or> \<not> int j < n"
    by auto
  have bound: "j \<le> nat n"
  proof (cases j)
    case 0
    then show ?thesis by simp
  next
    case (Suc m)
    with j(2) have "int m < n" by simp
    with Suc show ?thesis by simp
  qed
  have "visible j \<longleftrightarrow> (\<exists>k. k \<le> nat n \<and> visible k)"
  proof
    assume "visible j"
    with bound show "\<exists>k. k \<le> nat n \<and> visible k" by blast
  next
    assume "\<exists>k. k \<le> nat n \<and> visible k"
    then obtain k where k: "k \<le> nat n" "visible k" by blast
    show "visible j"
    proof (rule ccontr)
      assume nv: "\<not> visible j"
      with j(3) have "\<not> int j < n" by simp
      with bound have "j = nat n" by simp
      moreover from k(2) j(2) have "\<not> k < j" by blast
      ultimately have "k = j" using k(1) by simp
      with k(2) nv show False by simp
    qed
  qed
  with j(1) bound show ?thesis
    by (simp add: MemoryMap_def)
qed

text \<open>
  Claim C7. \<open>MemoryUnmap\<close> on an id that the table does not hold returns the driver state
  unchanged and raises nothing; after any \<open>MemoryUnmap\<close> the id is gone, and a second call
  on the same id changes nothing: two calls in succession equal one.
\<close>

theorem MemoryUnmap_idempotent:
  "(memoryMapRequests drv memoryId = None \<longrightarrow> MemoryUnmap drv memoryId = Inr drv)
   \<and> (\<exists>drv'. MemoryUnmap drv memoryId = Inr drv'
          \<and> memoryMapRequests drv' memoryId = None
          \<and> MemoryUnmap drv' memoryId = Inr drv')
   \<and> bind (MemoryUnmap drv memoryId) (\<lambda>drv'. MemoryUnmap drv' memoryId) = MemoryUnmap drv memoryId"
  by (auto simp: MemoryUnmap_def split: option.splits)

text \<open>
  Unmapping id 7 from a table that holds only id 5 leaves the table as it was.
\<close>

theorem MemoryUnmap_idempotent_witness:
  "memoryMapRequests \<lparr>memoryMapRequests = [5 \<mapsto> 1]\<rparr> 7 = None
   \<and> MemoryUnmap \<lparr>memoryMapRequests = [5 \<mapsto> 1]\<rparr> 7 = Inr \<lparr>memoryMapRequests = [5 \<mapsto> 1]\<rparr>"
proof -
  have h: "memoryMapRequests \<lparr>memoryMapRequests = [(5 :: u64) \<mapsto> (1 :: nat)]\<rparr> 7 = None"
    by simp
  from mp [OF conjunct1 [OF MemoryUnmap_idempotent] h] h show ?thesis
    by simp
qed

subsection \<open>Driver interface: the handle wrapper\<close>

lemma WinHandle_Set_eq:
  "WinHandle_Set w handle =
     (if deviceHandle w = INVALID_HANDLE_VALUE then Inr (w\<lparr>deviceHandle := handle\<rparr>)
      else Inl (GnaException Gna2StatusIdentifierInvalid))"
  by (auto simp: WinHandle_Set_def Expect_Equal_def)

lemma WinHandle_Sets_valid:
  "deviceHandle w \<noteq> INVALID_HANDLE_VALUE \<Longrightarrow> WinHandle_Sets w hs = w"
  by (induction hs) (simp_all add: WinHandle_Set_eq)

lemma WinHandle_Sets_append:
  "WinHandle_Sets w (xs @ ys) = WinHandle_Sets (WinHandle_Sets w xs) ys"
  by (induction xs arbitrary: w) (simp_all split: sum.splits)

text \<open>
  Claim C8. \<open>Set\<close> succeeds exactly when the wrapper holds the invalid sentinel, and throws
  \<open>Gna2StatusIdentifierInvalid\<close> otherwise, leaving the handle as it was. The destructor
  calls \<open>CloseHandle\<close> once on the held handle when it is valid and not at all when it is
  not, and leaves the sentinel behind, so that nothing more could be closed. Once a
  sequence of \<open>Set\<close> calls has left a valid handle, no further \<open>Set\<close> changes it: over a
  lifetime the handle goes from the sentinel to a real handle at most once, and the
  lifetime closes exactly the handle held at its end. The wrapper has no copy operation.
\<close>

theorem WinHandle_single_owner:
  "WinHandle_Set w handle =
     (if deviceHandle w = INVALID_HANDLE_VALUE then Inr (w\<lparr>deviceHandle := handle\<rparr>)
      else Inl (GnaException Gna2StatusIdentifierInvalid))
   \<and> WinHandle_dtor w closed =
       (if deviceHandle w \<noteq> INVALID_HANDLE_VALUE
        then (w\<lparr>deviceHandle := INVALID_HANDLE_VALUE\<rparr>, closed @ [deviceHandle w])
        else (w, closed))
   \<and> deviceHandle (fst (WinHandle_dtor w closed)) = INVALID_HANDLE_VALUE
   \<and> WinHandle_dtor (fst (WinHandle_dtor w closed)) (snd (WinHandle_dtor w closed))
       = WinHandle_dtor w closed
   \<and> (deviceHandle (WinHandle_Sets w xs) \<noteq> INVALID_HANDLE_VALUE \<longrightarrow>
        WinHandle_Sets w (xs @ ys) = WinHandle_Sets w xs)
   \<and> snd (WinHandle_lifetime w hs closed) =
       (if deviceHandle (WinHandle_Sets w hs) \<noteq> INVALID_HANDLE_VALUE
        then closed @ [deviceHandle (WinHandle_Sets w hs)] else closed)
   \<and> deviceHandle WinHandle_default = INVALID_HANDLE_VALUE"
  by (auto simp: WinHandle_Set_eq WinHandle_dtor_def WinHandle_lifetime_def WinHandle_Sets_valid
      WinHandle_Sets_append WinHandle_default_def)

text \<open>
  A default-constructed wrapper is set to 5; setting it to 6 and to 7 fails; the destructor
  closes 5 and nothing else.
\<close>

theorem WinHandle_single_owner_witness:
  "deviceHandle (WinHandle_Sets WinHandle_default [5, 6]) \<noteq> INVALID_HANDLE_VALUE
   \<and> WinHandle_Sets WinHandle_default ([5, 6] @ [7]) = WinHandle_Sets WinHandle_default [5, 6]
   \<and> deviceHandle (WinHandle_Sets WinHandle_default [5, 6, 7]) = 5
   \<and> WinHandle_lifetime WinHandle_default [5, 6, 7] [] = (WinHandle_default, [5])"
proof -
  have v: "WinHandle_Sets WinHandle_default [5, 6] = \<lparr>deviceHandle = 5\<rparr>"
    by (simp add: WinHandle_Set_eq WinHandle_default_def INVALID_HANDLE_VALUE_def)
  have h: "deviceHandle (WinHandle_Sets WinHandle_default [5, 6]) \<noteq> INVALID_HANDLE_VALUE"
    unfolding v by (simp add: INVALID_HANDLE_VALUE_def)
  note t = WinHandle_single_owner [of WinHandle_default 0 "[]" "[5, 6]" "[7]" "[5, 6, 7]"]
  note c = mp [OF conjunct1 [OF conjunct2 [OF conjunct2 [OF conjunct2 [OF conjunct2 [OF t]]]]] h]
  have a: "WinHandle_Sets WinHandle_default [5, 6, 7] = \<lparr>deviceHandle = 5\<rparr>"
    using c v by simp
  have l: "WinHandle_lifetime WinHandle_default [5, 6, 7] [] = (WinHandle_default, [5])"
    unfolding WinHandle_lifetime_def a
    by (simp add: WinHandle_dtor_def WinHandle_default_def INVALID_HANDLE_VALUE_def)
  from h c a l show ?thesis
    by simp
qed

subsection \<open>Recurrent kernel: the AVX2 implementation computes the reference where it can read\<close>

lemma and_then_Inr [simp]: "and_then (Inr v) f = f v"
  by (simp add: and_then_def)

lemma and_then_Inl [simp]: "and_then (Inl e) f = Inl e"
  by (simp add: and_then_def)

lemma and_then_Inr_iff: "and_then m f = Inr r \<longleftrightarrow> (\<exists>v. m = Inr v \<and> f v = Inr r)"
  by (cases m) simp_all

lemma mm256_lddqu_si256_Inr_iff: "mm256_lddqu_si256 mem p = Inr v \<longleftrightarrow> p + 16 \<le> length mem \<and> v = sixteen_at mem p"
  by (auto simp: mm256_lddqu_si256_def)

lemma mm_lddqu_si128_Inr_iff: "mm_lddqu_si128 mem p = Inr v \<longleftrightarrow> p + 16 \<le> length mem \<and> v = sixteen_at mem p"
  by (auto simp: mm_lddqu_si128_def)

lemma read_at_Inr_iff: "read_at mem p = Inr v \<longleftrightarrow> p < length mem \<and> v = mem ! p"
  by (auto simp: read_at_def)

lemma sum_list_add_epi32:
  "length a = length b \<Longrightarrow> sum_list (mm256_add_epi32 a b) = sum_list a + sum_list b"
  unfolding mm256_add_epi32_def
  by (induction a b rule: list_induct2) (simp_all add: algebra_simps)

lemma length_madd_sixteen:
  "length (mm256_madd_epi16 (sixteen_at mem p) (mm256_cvtepi8_epi16 (sixteen_at wmem w))) = 8"
  by (simp add: sixteen_at_def mm256_cvtepi8_epi16_def)

lemma length_add_epi32: "length (mm256_add_epi32 a b) = min (length a) (length b)"
  by (simp add: mm256_add_epi32_def)

lemma upt_16: "[0..<16] = [0,1,2,3,4,5,6,7,8,9,10,11,12,13,14,15::nat]"
  by (simp add: upt_rec)

lemma scast_scast_8_16_32: "(scast (scast (x :: i8) :: i16) :: i32) = scast x"
  by (rule scast_up_scast) (simp add: is_up)

lemma sum_list_madd_sixteen:
  "sum_list (mm256_madd_epi16 (sixteen_at mem p) (mm256_cvtepi8_epi16 (sixteen_at wmem w)))
   = sum_list (map (\<lambda>j. scast (mem ! (p + j)) * scast (wmem ! (w + j))) [0..<16])"
  by (simp add: sixteen_at_def mm256_cvtepi8_epi16_def upt_16 add.assoc scast_scast_8_16_32)

lemma sum_list_upt_split:
  "sum_list (map f [0..<a + b]) = sum_list (map f [0..<a]) + (sum_list (map (\<lambda>j. f (a + j)) [0..<b]) :: i32)"
  by (induction b) (simp_all add: add.assoc)

lemma vector_loop_step:
  assumes "p < pEnd" "p + 32 \<le> length mem" "w + 32 \<le> length wmem"
  shows "vector_loop mem wmem pEnd p w v0 v1 v2
     = vector_loop mem wmem pEnd (p + 16) (w + 16) (sixteen_at mem (p + 16))
         (mm256_cvtepi8_epi16 (sixteen_at wmem (w + 16)))
         (mm256_add_epi32 (mm256_madd_epi16 v0 v1) v2)"
  using assms
  by (subst vector_loop.simps) (simp add: Let_def mm256_lddqu_si256_def mm_lddqu_si128_def)

lemma vector_loop_blocks:
  assumes "p + 16 * n + 16 \<le> length mem"
    and "w + 16 * n + 16 \<le> length wmem"
    and "v0 = sixteen_at mem p"
    and "v1 = mm256_cvtepi8_epi16 (sixteen_at wmem w)"
    and "length v2 = 8"
  shows "\<exists>v0' v1' v2'.
      vector_loop mem wmem (p + 16 * n) p w v0 v1 v2 = Inr (p + 16 * n, w + 16 * n, v0', v1', v2')
      \<and> length v2' = 8
      \<and> sum_list v2' = sum_list v2
           + sum_list (map (\<lambda>j. scast (mem ! (p + j)) * scast (wmem ! (w + j))) [0..<16 * n])"
  using assms
proof (induction n arbitrary: p w v0 v1 v2)
  case 0
  then show ?case by (subst vector_loop.simps) simp
next
  case (Suc n)
  let ?m = "mm256_madd_epi16 v0 v1"
  let ?v2 = "mm256_add_epi32 ?m v2"
  have len: "length ?m = 8"
    using Suc.prems by (simp add: length_madd_sixteen)
  have len2: "length ?v2 = 8"
    using len Suc.prems by (simp add: length_add_epi32)
  have b1: "p + 16 + 16 * n + 16 \<le> length mem" and b2: "w + 16 + 16 * n + 16 \<le> length wmem"
    using Suc.prems by simp_all
  from Suc.IH [of "p + 16" "w + 16" "sixteen_at mem (p + 16)"
      "mm256_cvtepi8_epi16 (sixteen_at wmem (w + 16))" ?v2, OF b1 b2 refl refl len2]
  obtain v0' v1' v2' where
    run: "vector_loop mem wmem (p + 16 + 16 * n) (p + 16) (w + 16)
            (sixteen_at mem (p + 16))
            (mm256_cvtepi8_epi16 (sixteen_at wmem (w + 16))) ?v2
          = Inr (p + 16 + 16 * n, w + 16 + 16 * n, v0', v1', v2')"
    and l: "length v2' = 8"
    and s: "sum_list v2' = sum_list ?v2
           + sum_list (map (\<lambda>j. scast (mem ! (p + 16 + j)) * scast (wmem ! (w + 16 + j))) [0..<16 * n])"
    by blast
  have e: "p + 16 * Suc n = p + 16 + 16 * n" "w + 16 * Suc n = w + 16 + 16 * n"
    by simp_all
  have lt: "p < p + 16 + 16 * n"
    by simp
  have r1: "p + 32 \<le> length mem" and r2: "w + 32 \<le> length wmem"
    using Suc.prems by simp_all
  note step = vector_loop_step [OF lt r1 r2, of v0 v1 v2]
  have sum0: "sum_list ?v2 = sum_list (map (\<lambda>j. scast (mem ! (p + j)) * scast (wmem ! (w + j))) [0..<16])
      + sum_list v2"
    using len Suc.prems by (simp add: sum_list_add_epi32 sum_list_madd_sixteen)
  have split: "sum_list (map (\<lambda>j. scast (mem ! (p + j)) * scast (wmem ! (w + j))) [0..<16 * Suc n])
     = sum_list (map (\<lambda>j. scast (mem ! (p + j)) * scast (wmem ! (w + j))) [0..<16])
      + (sum_list (map (\<lambda>j. scast (mem ! (p + 16 + j)) * scast (wmem ! (w + 16 + j))) [0..<16 * n]) :: i32)"
    using sum_list_upt_split [of "\<lambda>j. scast (mem ! (p + j)) * scast (wmem ! (w + j))" 16 "16 * n"]
    by (simp add: add.assoc)
  have total: "sum_list v2' = sum_list v2
      + sum_list (map (\<lambda>j. scast (mem ! (p + j)) * scast (wmem ! (w + j))) [0..<16 * Suc n])"
    unfolding s sum0 split by (simp only: add.assoc add.commute add.left_commute)
  have "vector_loop mem wmem (p + 16 * Suc n) p w v0 v1 v2
      = Inr (p + 16 * Suc n, w + 16 * Suc n, v0', v1', v2')"
    unfolding e step run ..
  with l total show ?case
    by (intro exI conjI)
qed

lemma vector_loop_unfold:
  assumes "p < pEnd"
  shows "vector_loop mem wmem pEnd p w v0 v1 v2
      = (case mm256_lddqu_si256 mem (p + 16) of
           Inl e \<Rightarrow> Inl e
         | Inr v0' \<Rightarrow>
             (case mm_lddqu_si128 wmem (w + 16) of
                Inl e \<Rightarrow> Inl e
              | Inr bytes \<Rightarrow>
                  vector_loop mem wmem pEnd (p + 16) (w + 16) v0'
                    (mm256_cvtepi8_epi16 bytes) (mm256_add_epi32 (mm256_madd_epi16 v0 v1) v2)))"
  using assms by (subst vector_loop.simps) (simp add: Let_def)

lemma vector_loop_Inr_readable:
  assumes "vector_loop mem wmem (p + 16 * n) p w v0 v1 v2 = Inr r"
    and "0 < n"
  shows "p + 16 * n + 16 \<le> length mem \<and> w + 16 * n + 16 \<le> length wmem"
  using assms
proof (induction n arbitrary: p w v0 v1 v2)
  case 0
  then show ?case by simp
next
  case (Suc n)
  have lt: "p < p + 16 * Suc n"
    by simp
  have e: "p + 16 * Suc n = p + 16 + 16 * n"
    by simp
  have lt': "p < p + 16 + 16 * n"
    by simp
  from Suc.prems(1) [unfolded e vector_loop_unfold [OF lt']] obtain v0' bytes where
    a: "mm256_lddqu_si256 mem (p + 16) = Inr v0'"
    and b: "mm_lddqu_si128 wmem (w + 16) = Inr bytes"
    and c: "vector_loop mem wmem (p + 16 + 16 * n) (p + 16) (w + 16) v0'
              (mm256_cvtepi8_epi16 bytes) (mm256_add_epi32 (mm256_madd_epi16 v0 v1) v2) = Inr r"
    by (auto split: sum.splits)
  from a have ra: "p + 16 + 16 \<le> length mem"
    by (simp add: mm256_lddqu_si256_Inr_iff)
  from b have rb: "w + 16 + 16 \<le> length wmem"
    by (simp add: mm_lddqu_si128_Inr_iff)
  show ?case
  proof (cases "n = 0")
    case True
    with ra rb show ?thesis by simp
  next
    case False
    then have "0 < n" by simp
    from Suc.IH [OF c this] show ?thesis by simp
  qed
qed

lemma scalar_loop_steps:
  assumes "p + n \<le> length mem" and "w + n \<le> length wmem"
  shows "scalar_loop mem wmem (p + n) p w out
   = Inr (p + n, w + n, out + sum_list (map (\<lambda>j. scast (mem ! (p + j)) * scast (wmem ! (w + j))) [0..<n]))"
  using assms
proof (induction n arbitrary: p w out)
  case 0
  then show ?case by (subst scalar_loop.simps) simp
next
  case (Suc n)
  have "scalar_loop mem wmem (p + Suc n) p w out
      = scalar_loop mem wmem (p + 1 + n) (p + 1) (w + 1) (out + scast (mem ! p) * scast (wmem ! w))"
    using Suc.prems by (subst scalar_loop.simps) (simp add: read_at_def)
  also have "\<dots> = Inr (p + 1 + n, w + 1 + n, out + scast (mem ! p) * scast (wmem ! w)
      + sum_list (map (\<lambda>j. scast (mem ! (p + 1 + j)) * scast (wmem ! (w + 1 + j))) [0..<n]))"
    using Suc.prems by (intro Suc.IH) simp_all
  also have "sum_list (map (\<lambda>j. scast (mem ! (p + j)) * scast (wmem ! (w + j))) [0..<Suc n])
     = scast (mem ! p) * scast (wmem ! w)
       + (sum_list (map (\<lambda>j. scast (mem ! (p + 1 + j)) * scast (wmem ! (w + 1 + j))) [0..<n]) :: i32)"
    using sum_list_upt_split [of "\<lambda>j. scast (mem ! (p + j)) * scast (wmem ! (w + j))" 1 n]
    by simp
  ultimately show ?case by (simp add: add.assoc del: upt_Suc)
qed

lemma dot_reference_split:
  "dot_reference x w row (a + b) = dot_reference x w row a
     + sum_list (map (\<lambda>j. scast (x ! (a + j)) * scast (w ! (row + a + j))) [0..<b])"
  unfolding dot_reference_def
  using sum_list_upt_split [of "\<lambda>j. scast (x ! j) * scast (w ! (row + j))" a b]
  by (simp add: add.assoc)

lemma block_end: "unat (c :: u32) - unat (c mod 16) = 16 * (unat c div 16)"
proof -
  have "unat (c mod 16) = unat c mod 16"
    by (simp add: unat_mod)
  then show ?thesis
    by (simp add: minus_mod_eq_mult_div)
qed

lemma vector_then_scalar:
  fixes x :: "i16 list" and w :: "i8 list" and c :: u32
  assumes "length v2 = 8"
    and "16 * (unat c div 16) + 16 \<le> length x"
    and "wp + 16 * (unat c div 16) + 16 \<le> length w"
  shows "\<exists>v0' v1' v2' blocks rest.
     vector_loop x w (unat c - unat (c mod 16)) 0 wp
        (sixteen_at x 0) (mm256_cvtepi8_epi16 (sixteen_at w wp)) v2
       = Inr (unat c - unat (c mod 16), wp + (unat c - unat (c mod 16)), v0', v1', v2')
     \<and> length v2' = 8
     \<and> sum_list v2' = sum_list v2 + blocks
     \<and> (\<forall>out. scalar_loop x w (unat c - unat (c mod 16) + unat (c mod 16))
            (unat c - unat (c mod 16)) (wp + (unat c - unat (c mod 16))) out
          = Inr (unat c, wp + unat c, out + rest))
     \<and> blocks + rest = dot_reference x w wp (unat c)"
proof -
  define q where "q = unat c div 16"
  define r where "r = unat c mod 16"
  have r: "unat (c mod 16) = r"
    by (simp add: r_def unat_mod)
  have n: "unat c = 16 * q + r"
    by (simp add: q_def r_def)
  have e: "unat c - unat (c mod 16) = 16 * q"
    unfolding r n by simp
  have rlt: "r < 16"
    by (simp add: r_def)
  have bx: "0 + 16 * q + 16 \<le> length x" and bw: "wp + 16 * q + 16 \<le> length w"
    using assms(2,3) by (simp_all add: q_def)
  define rest :: i32 where
    "rest = sum_list (map (\<lambda>j. scast (x ! (16 * q + j)) * scast (w ! (wp + 16 * q + j))) [0..<r])"
  from vector_loop_blocks [of 0 q x wp w "sixteen_at x 0" "mm256_cvtepi8_epi16 (sixteen_at w wp)" v2,
      OF bx bw refl refl assms(1)]
  obtain v0' v1' v2' where
    run: "vector_loop x w (16 * q) 0 wp (sixteen_at x 0)
            (mm256_cvtepi8_epi16 (sixteen_at w wp)) v2 = Inr (16 * q, wp + 16 * q, v0', v1', v2')"
    and l: "length v2' = 8"
    and s: "sum_list v2' = sum_list v2 + dot_reference x w wp (16 * q)"
    by (auto simp: dot_reference_def)
  have sx: "16 * q + r \<le> length x" and sw: "wp + 16 * q + r \<le> length w"
    using bx bw rlt by simp_all
  have sc: "scalar_loop x w (16 * q + r) (16 * q) (wp + 16 * q) out
          = Inr (16 * q + r, wp + (16 * q + r), out + rest)"
    for out
    unfolding scalar_loop_steps [OF sx sw] rest_def
    by (simp add: add.assoc)
  have total: "dot_reference x w wp (16 * q) + rest = dot_reference x w wp (unat c)"
    unfolding n dot_reference_split rest_def ..
  show ?thesis
    unfolding r e using run l s sc total by (simp add: n)
qed

lemma sum_list_setzero: "sum_list mm256_setzero_si256 = 0"
  by (simp add: mm256_setzero_si256_def)

lemma length_setzero: "length mm256_setzero_si256 = 8"
  by (simp add: mm256_setzero_si256_def)

text \<open>What one iteration needs to read, with the weight pointers at \<open>weight\<close> and \<open>weight2\<close>.\<close>

lemma RecurrentKernelImpl1B_body_eq:
  assumes vs: "\<And>v. length v = 8 \<Longrightarrow> vec_sum v = sum_list v"
    and rx: "16 * (unat (inputElementCount (Transform (RequestConfig config))) div 16) + 16
        \<le> length (Inputs (RequestConfig config))"
    and rf: "16 * (unat (outputElementCount (Transform (RequestConfig config))) div 16) + 16
        \<le> length (feedbackBuffer (Transform (RequestConfig config)))"
    and rw: "weight + 16 * (unat (inputElementCount (Transform (RequestConfig config))) div 16) + 16
        \<le> length (weights1B (Transform (RequestConfig config)))"
    and rw2: "weight2 + 16 * (unat (outputElementCount (Transform (RequestConfig config))) div 16) + 16
        \<le> length (weights1B (Transform (RequestConfig config)))"
    and rb: "i < length (biasesCompound (Transform (RequestConfig config)))"
  shows "RecurrentKernelImpl1B_body vec_sum config i weight weight2 =
     (let T = Transform (RequestConfig config);
          n = unat (inputElementCount T);
          m = unat (outputElementCount T);
          b = biasesCompound T ! i
      in Inr ((dot_reference (Inputs (RequestConfig config)) (weights1B T) weight n
            + dot_reference (feedbackBuffer T) (weights1B T) weight2 m)
          * ucast (multiplier b) + bias b,
          weight + n + m, weight2 + m + n))"
proof -
  let ?T = "Transform (RequestConfig config)"
  let ?x = "Inputs (RequestConfig config)"
  let ?f = "feedbackBuffer ?T"
  let ?w = "weights1B ?T"
  let ?n = "inputElementCount ?T"
  let ?m = "outputElementCount ?T"
  from vector_then_scalar [of mm256_setzero_si256 ?n ?x weight ?w, OF length_setzero rx rw]
  obtain a0 a1 a2 ablocks arest where
    runa: "vector_loop ?x ?w (unat ?n - unat (?n mod 16)) 0 weight
        (sixteen_at ?x 0) (mm256_cvtepi8_epi16 (sixteen_at ?w weight)) mm256_setzero_si256
       = Inr (unat ?n - unat (?n mod 16), weight + (unat ?n - unat (?n mod 16)), a0, a1, a2)"
    and la: "length a2 = 8"
    and sa: "sum_list a2 = ablocks"
    and sca: "\<And>out. scalar_loop ?x ?w (unat ?n - unat (?n mod 16) + unat (?n mod 16))
            (unat ?n - unat (?n mod 16)) (weight + (unat ?n - unat (?n mod 16))) out
          = Inr (unat ?n, weight + unat ?n, out + arest)"
    and ta: "ablocks + arest = dot_reference ?x ?w weight (unat ?n)"
    by (auto simp: sum_list_setzero)
  from vector_then_scalar [of a2 ?m ?f weight2 ?w, OF la rf rw2]
  obtain b0 b1 b2 bblocks brest where
    runb: "vector_loop ?f ?w (unat ?m - unat (?m mod 16)) 0 weight2
        (sixteen_at ?f 0) (mm256_cvtepi8_epi16 (sixteen_at ?w weight2)) a2
       = Inr (unat ?m - unat (?m mod 16), weight2 + (unat ?m - unat (?m mod 16)), b0, b1, b2)"
    and lb: "length b2 = 8"
    and sb: "sum_list b2 = sum_list a2 + bblocks"
    and scb: "\<And>out. scalar_loop ?f ?w (unat ?m - unat (?m mod 16) + unat (?m mod 16))
            (unat ?m - unat (?m mod 16)) (weight2 + (unat ?m - unat (?m mod 16))) out
          = Inr (unat ?m, weight2 + unat ?m, out + brest)"
    and tb: "bblocks + brest = dot_reference ?f ?w weight2 (unat ?m)"
    by blast
  have lx: "mm256_lddqu_si256 ?x 0 = Inr (sixteen_at ?x 0)"
    using rx by (simp add: mm256_lddqu_si256_def)
  have lf: "mm256_lddqu_si256 ?f 0 = Inr (sixteen_at ?f 0)"
    using rf by (simp add: mm256_lddqu_si256_def)
  have lw: "mm_lddqu_si128 ?w weight = Inr (sixteen_at ?w weight)"
    using rw by (simp add: mm_lddqu_si128_def)
  have lw2: "mm_lddqu_si128 ?w weight2 = Inr (sixteen_at ?w weight2)"
    using rw2 by (simp add: mm_lddqu_si128_def)
  have lbias: "read_at (biasesCompound ?T) i = Inr (biasesCompound ?T ! i)"
    using rb by (simp add: read_at_def)
  have vsb: "vec_sum b2 = ablocks + bblocks"
    unfolding vs [OF lb] sb sa ..
  have lda1: "?m + ?n - ?n = ?m" and lda2: "?m + ?n - ?m = ?n"
    by simp_all
  have val: "ablocks + bblocks + arest + brest
      = dot_reference ?x ?w weight (unat ?n) + dot_reference ?f ?w weight2 (unat ?m)"
    unfolding ta [symmetric] tb [symmetric] by (simp add: ac_simps)
  show ?thesis
    unfolding RecurrentKernelImpl1B_body_def Let_def lx lw and_then_Inr runa prod.case lf lw2 runb
      vsb sca scb lbias lda1 lda2 val
    by (simp add: add.assoc)
qed

lemma RecurrentKernelImpl1B_body_Inr_readable:
  assumes "RecurrentKernelImpl1B_body vec_sum config i weight weight2 = Inr r"
  shows "16 * (unat (inputElementCount (Transform (RequestConfig config))) div 16) + 16
        \<le> length (Inputs (RequestConfig config))
    \<and> 16 * (unat (outputElementCount (Transform (RequestConfig config))) div 16) + 16
        \<le> length (feedbackBuffer (Transform (RequestConfig config)))
    \<and> weight + 16 * (unat (inputElementCount (Transform (RequestConfig config))) div 16) + 16
        \<le> length (weights1B (Transform (RequestConfig config)))
    \<and> weight2 + 16 * (unat (outputElementCount (Transform (RequestConfig config))) div 16) + 16
        \<le> length (weights1B (Transform (RequestConfig config)))
    \<and> i < length (biasesCompound (Transform (RequestConfig config)))"
proof -
  let ?T = "Transform (RequestConfig config)"
  let ?x = "Inputs (RequestConfig config)"
  let ?f = "feedbackBuffer ?T"
  let ?w = "weights1B ?T"
  let ?n = "inputElementCount ?T"
  let ?m = "outputElementCount ?T"
  from assms obtain v0 bytes ra v0f bytesf v2a rb b where
    lx: "mm256_lddqu_si256 ?x 0 = Inr v0"
    and lw: "mm_lddqu_si128 ?w weight = Inr bytes"
    and runa: "vector_loop ?x ?w (0 + 16 * (unat ?n div 16)) 0 weight v0 (mm256_cvtepi8_epi16 bytes)
        mm256_setzero_si256 = Inr ra"
    and lf: "mm256_lddqu_si256 ?f 0 = Inr v0f"
    and lw2: "mm_lddqu_si128 ?w weight2 = Inr bytesf"
    and runb: "vector_loop ?f ?w (0 + 16 * (unat ?m div 16)) 0 weight2 v0f (mm256_cvtepi8_epi16 bytesf)
        v2a = Inr rb"
    and lb: "read_at (biasesCompound ?T) i = Inr b"
    unfolding RecurrentKernelImpl1B_body_def Let_def block_end
    by (auto simp: and_then_Inr_iff)
  have x: "16 * (unat ?n div 16) + 16 \<le> length ?x \<and> weight + 16 * (unat ?n div 16) + 16 \<le> length ?w"
  proof (cases "unat ?n div 16 = 0")
    case True
    with lx lw show ?thesis
      by (simp add: mm256_lddqu_si256_Inr_iff mm_lddqu_si128_Inr_iff)
  next
    case False
    then have "0 < unat ?n div 16" by simp
    from vector_loop_Inr_readable [OF runa this] show ?thesis by simp
  qed
  have f: "16 * (unat ?m div 16) + 16 \<le> length ?f \<and> weight2 + 16 * (unat ?m div 16) + 16 \<le> length ?w"
  proof (cases "unat ?m div 16 = 0")
    case True
    with lf lw2 show ?thesis
      by (simp add: mm256_lddqu_si256_Inr_iff mm_lddqu_si128_Inr_iff)
  next
    case False
    then have "0 < unat ?m div 16" by simp
    from vector_loop_Inr_readable [OF runb this] show ?thesis by simp
  qed
  from lb have "i < length (biasesCompound ?T)"
    by (simp add: read_at_Inr_iff)
  with x f show ?thesis
    by simp
qed

lemma readable_row:
  assumes "i < m"
    and "16 * (n div 16) + 16 \<le> lx"
    and "(m - 1) * (m + n) + n + 16 * (m div 16) + 16 \<le> (lw :: nat)"
  shows "i * (m + n) + 16 * (n div 16) + 16 \<le> lw \<and> i * (m + n) + n + 16 * (m div 16) + 16 \<le> lw"
proof -
  from assms(1) have "i \<le> m - 1"
    by simp
  then have "i * (m + n) \<le> (m - 1) * (m + n)"
    by (rule mult_le_mono1)
  moreover have "16 * (n div 16) \<le> n"
    by simp
  ultimately show ?thesis
    using assms(3) by linarith
qed

lemma RecurrentKernelImpl1B_loop_eq:
  assumes vs: "\<And>v. length v = 8 \<Longrightarrow> vec_sum v = sum_list v"
    and m: "m = unat (outputElementCount (Transform (RequestConfig config)))"
    and n: "n = unat (inputElementCount (Transform (RequestConfig config)))"
    and r: "readable_with_slack config"
  shows "RecurrentKernelImpl1B_loop vec_sum config i (i * (m + n)) (i * (m + n) + n) outputs
     = Inr (outputs @ map (Recurrent_reference config) [i..<m])"
proof (induction "m - i" arbitrary: i outputs)
  case 0
  then have "\<not> i < m" by simp
  then show ?case
    using m by (subst RecurrentKernelImpl1B_loop.simps) simp
next
  case (Suc k)
  then have lt: "i < m" and k: "k = m - (i + 1)"
    by simp_all
  from lt r have rx: "16 * (n div 16) + 16 \<le> length (Inputs (RequestConfig config))"
    and rf: "16 * (m div 16) + 16 \<le> length (feedbackBuffer (Transform (RequestConfig config)))"
    and rw: "(m - 1) * (m + n) + n + 16 * (m div 16) + 16
        \<le> length (weights1B (Transform (RequestConfig config)))"
    and rb: "m \<le> length (biasesCompound (Transform (RequestConfig config)))"
    unfolding readable_with_slack_def Let_def m [symmetric] n [symmetric] by simp_all
  note row = readable_row [OF lt rx rw]
  have rbi: "i < length (biasesCompound (Transform (RequestConfig config)))"
    using lt rb by simp
  have body: "RecurrentKernelImpl1B_body vec_sum config i (i * (m + n)) (i * (m + n) + n)
      = Inr (Recurrent_reference config i, (i + 1) * (m + n), (i + 1) * (m + n) + n)"
  proof -
    have "RecurrentKernelImpl1B_body vec_sum config i (i * (m + n)) (i * (m + n) + n) =
       (let T = Transform (RequestConfig config);
            n' = unat (inputElementCount T);
            m' = unat (outputElementCount T);
            b = biasesCompound T ! i
        in Inr ((dot_reference (Inputs (RequestConfig config)) (weights1B T) (i * (m + n)) n'
              + dot_reference (feedbackBuffer T) (weights1B T) (i * (m + n) + n) m')
            * ucast (multiplier b) + bias b,
            i * (m + n) + n' + m', i * (m + n) + n + m' + n'))"
      by (rule RecurrentKernelImpl1B_body_eq [OF vs]) (use rx rf row rbi in \<open>simp_all add: m n\<close>)
    then show ?thesis
      unfolding Recurrent_reference_def Let_def m [symmetric] n [symmetric]
      by (simp add: algebra_simps)
  qed
  have "RecurrentKernelImpl1B_loop vec_sum config i (i * (m + n)) (i * (m + n) + n) outputs
      = RecurrentKernelImpl1B_loop vec_sum config (i + 1) ((i + 1) * (m + n)) ((i + 1) * (m + n) + n)
          (outputs @ [Recurrent_reference config i])"
  proof -
    have c: "i < unat (outputElementCount (Transform (RequestConfig config)))"
      using lt m by simp
    show ?thesis
      by (subst RecurrentKernelImpl1B_loop.simps) (simp only: c if_True body sum.case prod.case)
  qed
  also have "\<dots> = Inr ((outputs @ [Recurrent_reference config i])
      @ map (Recurrent_reference config) [i + 1..<m])"
    by (rule Suc.hyps(1) [OF k])
  also have "\<dots> = Inr (outputs @ map (Recurrent_reference config) [i..<m])"
    using lt by (simp add: upt_conv_Cons)
  finally show ?case .
qed

lemma RecurrentKernelImpl1B_loop_Inr_readable:
  assumes vs: "\<And>v. length v = 8 \<Longrightarrow> vec_sum v = sum_list v"
    and m: "m = unat (outputElementCount (Transform (RequestConfig config)))"
    and n: "n = unat (inputElementCount (Transform (RequestConfig config)))"
  shows "RecurrentKernelImpl1B_loop vec_sum config i (i * (m + n)) (i * (m + n) + n) outputs = Inr r
     \<Longrightarrow> i < m \<Longrightarrow> readable_with_slack config"
proof (induction "m - i" arbitrary: i outputs)
  case 0
  then show ?case by simp
next
  case (Suc k)
  from Suc.prems(2) have c: "i < unat (outputElementCount (Transform (RequestConfig config)))"
    using m by simp
  have unfold: "RecurrentKernelImpl1B_loop vec_sum config i (i * (m + n)) (i * (m + n) + n) outputs
      = (case RecurrentKernelImpl1B_body vec_sum config i (i * (m + n)) (i * (m + n) + n) of
           Inl e \<Rightarrow> Inl e
         | Inr (out, weight', weight2') \<Rightarrow>
             RecurrentKernelImpl1B_loop vec_sum config (i + 1) weight' weight2' (outputs @ [out]))"
    by (subst RecurrentKernelImpl1B_loop.simps) (simp only: c if_True)
  from Suc.prems(1) [unfolded unfold] obtain b where
    b: "RecurrentKernelImpl1B_body vec_sum config i (i * (m + n)) (i * (m + n) + n) = Inr b"
    by (auto split: sum.splits)
  note rd = RecurrentKernelImpl1B_body_Inr_readable [OF b]
  note rx = conjunct1 [OF rd]
  note rf = conjunct1 [OF conjunct2 [OF rd]]
  note rw = conjunct1 [OF conjunct2 [OF conjunct2 [OF rd]]]
  note rw2 = conjunct1 [OF conjunct2 [OF conjunct2 [OF conjunct2 [OF rd]]]]
  note rb = conjunct2 [OF conjunct2 [OF conjunct2 [OF conjunct2 [OF rd]]]]
  have body: "RecurrentKernelImpl1B_body vec_sum config i (i * (m + n)) (i * (m + n) + n)
      = Inr (Recurrent_reference config i, (i + 1) * (m + n), (i + 1) * (m + n) + n)"
    using RecurrentKernelImpl1B_body_eq [OF vs rx rf rw rw2 rb]
    unfolding Recurrent_reference_def Let_def m [symmetric] n [symmetric]
    by (simp add: algebra_simps)
  show ?case
  proof (cases "i + 1 < m")
    case True
    from Suc.hyps(2) have k: "k = m - (i + 1)"
      by simp
    from Suc.prems(1) [unfolded unfold body]
    have "RecurrentKernelImpl1B_loop vec_sum config (i + 1) ((i + 1) * (m + n))
        ((i + 1) * (m + n) + n) (outputs @ [Recurrent_reference config i]) = Inr r"
      by simp
    from Suc.hyps(1) [OF k this True] show ?thesis .
  next
    case False
    with Suc.prems(2) have i: "i = m - 1" and pos: "0 < m"
      by simp_all
    from rx rf rw2 rb show ?thesis
      unfolding readable_with_slack_def Let_def m [symmetric] n [symmetric] i
      using pos by (simp add: add.assoc)
  qed
qed

text \<open>
  Claim C9, as amended. Let \<open>vec_sum\<close> return the sum of the eight 32-bit lanes of its
  argument. For every configuration, whatever the element counts, if the buffers are
  readable with the slack the vector loads need (the input and the feedback buffer to the
  end of the sixteen elements after their last full block of sixteen, the weights to the
  end of the sixteen bytes after the last full block of the last row's feedback weights,
  one bias per output), the AVX2 kernel (vector loops over blocks of sixteen inputs and
  sixteen feedback values, then the scalar remainder loops) writes for each output index
  \<open>i\<close> the value of the reference computation: the dot product of the input with weight
  row \<open>i\<close> plus the dot product of the feedback with feedback-weight row \<open>i\<close>, times the
  multiplier of bias \<open>i\<close>, plus its bias, in wrapping 32-bit arithmetic, the rows being
  \<open>outputElementCount + inputElementCount\<close> apart. Without that slack the kernel writes
  no result: one of its loads leaves the readable memory and it ends with a segmentation
  fault.
\<close>

theorem RecurrentKernelImpl1B_refines_reference_when_readable:
  assumes vs: "\<And>v. length v = 8 \<Longrightarrow> vec_sum v = sum_list v"
  shows "RecurrentKernelImpl1B vec_sum config =
     (if readable_with_slack config
      then Inr (map (Recurrent_reference config)
             [0..<unat (outputElementCount (Transform (RequestConfig config)))])
      else Inl SegmentationFault)"
proof (cases "readable_with_slack config")
  case True
  from RecurrentKernelImpl1B_loop_eq [OF vs refl refl True, of 0 "[]"] True show ?thesis
    unfolding RecurrentKernelImpl1B_def by simp
next
  case False
  then have pos: "0 < unat (outputElementCount (Transform (RequestConfig config)))"
    by (auto simp: readable_with_slack_def Let_def)
  have "RecurrentKernelImpl1B vec_sum config = Inl SegmentationFault"
  proof (cases "RecurrentKernelImpl1B vec_sum config")
    case (Inl e)
    then show ?thesis by (cases e) simp
  next
    case (Inr r)
    then have "RecurrentKernelImpl1B_loop vec_sum config 0
        (0 * (unat (outputElementCount (Transform (RequestConfig config)))
              + unat (inputElementCount (Transform (RequestConfig config)))))
        (0 * (unat (outputElementCount (Transform (RequestConfig config)))
              + unat (inputElementCount (Transform (RequestConfig config))))
         + unat (inputElementCount (Transform (RequestConfig config)))) [] = Inr r"
      unfolding RecurrentKernelImpl1B_def by simp
    from RecurrentKernelImpl1B_loop_Inr_readable [OF vs refl refl this pos] False
    show ?thesis by simp
  qed
  with False show ?thesis by simp
qed

theorem RecurrentKernelImpl1B_refines_reference_when_readable_witness:
  "readable_with_slack
     \<lparr>RequestConfig = \<lparr>Inputs = 3 # replicate 15 9,
        Transform = \<lparr>outputElementCount = 1, inputElementCount = 1,
          feedbackBuffer = 2 # replicate 15 9,
          biasesCompound = [\<lparr>bias = 1, multiplier = 2\<rparr>],
          weights1B = 5 # 7 # replicate 15 9\<rparr>\<rparr>\<rparr>
   \<and> RecurrentKernelImpl1B sum_list
     \<lparr>RequestConfig = \<lparr>Inputs = 3 # replicate 15 9,
        Transform = \<lparr>outputElementCount = 1, inputElementCount = 1,
          feedbackBuffer = 2 # replicate 15 9,
          biasesCompound = [\<lparr>bias = 1, multiplier = 2\<rparr>],
          weights1B = 5 # 7 # replicate 15 9\<rparr>\<rparr>\<rparr> = Inr [59]"
  using RecurrentKernelImpl1B_refines_reference_when_readable [of sum_list
     "\<lparr>RequestConfig = \<lparr>Inputs = 3 # replicate 15 9,
        Transform = \<lparr>outputElementCount = 1, inputElementCount = 1,
          feedbackBuffer = 2 # replicate 15 9,
          biasesCompound = [\<lparr>bias = 1, multiplier = 2\<rparr>],
          weights1B = 5 # 7 # replicate 15 9\<rparr>\<rparr>\<rparr>", OF refl]
  by (simp add: readable_with_slack_def Recurrent_reference_def dot_reference_def)

text \<open>
  Claim C9 as stated fails: with one input and one output element and buffers of exactly
  the sizes the counts give (one input, one feedback value, two weights, one bias), the
  reference value of output 0 is \<open>(3 * 5 + 2 * 7) * 2 + 1 = 59\<close>, but the first vector load
  of the kernel reads sixteen input elements where one is readable, and the kernel ends
  with a segmentation fault.
\<close>

theorem RecurrentKernelImpl1B_exact_buffers_fault:
  "RecurrentKernelImpl1B sum_list
     \<lparr>RequestConfig = \<lparr>Inputs = [3],
        Transform = \<lparr>outputElementCount = 1, inputElementCount = 1,
          feedbackBuffer = [2],
          biasesCompound = [\<lparr>bias = 1, multiplier = 2\<rparr>],
          weights1B = [5, 7]\<rparr>\<rparr>\<rparr> = Inl SegmentationFault
   \<and> map (Recurrent_reference
     \<lparr>RequestConfig = \<lparr>Inputs = [3],
        Transform = \<lparr>outputElementCount = 1, inputElementCount = 1,
          feedbackBuffer = [2],
          biasesCompound = [\<lparr>bias = 1, multiplier = 2\<rparr>],
          weights1B = [5, 7]\<rparr>\<rparr>\<rparr>) [0..<unat (1 :: u32)] = [59]"
  by (simp add: RecurrentKernelImpl1B_def RecurrentKernelImpl1B_loop.simps
      RecurrentKernelImpl1B_body_def mm256_lddqu_si256_def
      Recurrent_reference_def dot_reference_def)

end
